theory Spec2Isabelle
  imports Complex_Main "HOL-Library.AList"
begin

section \<open>Values\<close>

text \<open>
  The values the program moves around without looking at their type: what
  \<^verbatim>\<open>json.load\<close> and \<^verbatim>\<open>response.json()\<close> return and what a keyword
  argument may hold. \<open>JNull\<close> is Python's \<^verbatim>\<open>None\<close>. A dict is an association
  list in insertion order; \<open>map_of\<close> is \<^verbatim>\<open>d.get(k)\<close> and \<open>AList.update\<close> is
  \<^verbatim>\<open>d[k] = v\<close> (overwrite in place, or append a new key at the end). A float is
  given by the real number it denotes; arithmetic on floats rounds, as defined with
  the usage statistics.
\<close>

datatype json =
    JNull
  | JBool bool
  | JInt int
  | JFloat real
  | JStr string
  | JArr "json list"
  | JObj "(string \<times> json) list"

type_synonym dict = "(string \<times> json) list"

datatype py_error = AttributeError | TypeError | OverflowError | ZeroDivisionError

text \<open>Truth value of a Python object, as \<^verbatim>\<open>if x:\<close> tests it.\<close>

fun truthy :: "json \<Rightarrow> bool" where
  "truthy JNull = False"
| "truthy (JBool b) = b"
| "truthy (JInt i) = (i \<noteq> 0)"
| "truthy (JFloat x) = (x \<noteq> 0)"
| "truthy (JStr s) = (s \<noteq> [])"
| "truthy (JArr xs) = (xs \<noteq> [])"
| "truthy (JObj kvs) = (kvs \<noteq> [])"

text \<open>
  \<^verbatim>\<open>x.get(key, default)\<close>: only a dict has the method, any other object raises
  AttributeError.
\<close>

fun py_get :: "json \<Rightarrow> string \<Rightarrow> json \<Rightarrow> py_error + json" where
  "py_get (JObj kvs) key dflt = Inr (case map_of kvs key of None \<Rightarrow> dflt | Some v \<Rightarrow> v)"
| "py_get _ key dflt = Inl AttributeError"

text \<open>
  \<^verbatim>\<open>for x in v\<close>: a list gives its elements, a string its characters, a dict its
  keys; any other object raises TypeError.
\<close>

fun py_iter :: "json \<Rightarrow> py_error + json list" where
  "py_iter (JArr xs) = Inr xs"
| "py_iter (JStr s) = Inr (map (\<lambda>c. JStr [c]) s)"
| "py_iter (JObj kvs) = Inr (map (\<lambda>kv. JStr (fst kv)) kvs)"
| "py_iter _ = Inl TypeError"

section \<open>Request and response model (models/api\_models.py)\<close>

text \<open>
  A dataclass does not check its annotations, so a field that the program only copies
  (from a keyword argument or from the reply of the API) holds a \<open>json\<close> value,
  with \<open>JNull\<close> for \<^verbatim>\<open>None\<close>. A field that the program computes with (the
  model name, an entry's id, status and timestamp) has the type of its annotation.
\<close>

record PerplexityMessage =
  role :: json
  content :: json

record PerplexityRequest =
  model :: string
  messages :: "PerplexityMessage list"
  max_tokens :: json
  temperature :: json
  top_p :: json
  presence_penalty :: json
  frequency_penalty :: json
  stream :: json
  return_citations :: json
  return_related_questions :: json
  return_images :: json

text \<open>\<^verbatim>\<open>dataclasses.asdict\<close> on a message and on a request: the fields in declaration order.\<close>

definition message_asdict :: "PerplexityMessage \<Rightarrow> json" where
  "message_asdict msg = JObj [(''role'', role msg), (''content'', content msg)]"

definition request_asdict :: "PerplexityRequest \<Rightarrow> dict" where
  "request_asdict self =
     [(''model'', JStr (model self)),
      (''messages'', JArr (map message_asdict (messages self))),
      (''max_tokens'', max_tokens self),
      (''temperature'', temperature self),
      (''top_p'', top_p self),
      (''presence_penalty'', presence_penalty self),
      (''frequency_penalty'', frequency_penalty self),
      (''stream'', stream self),
      (''return_citations'', return_citations self),
      (''return_related_questions'', return_related_questions self),
      (''return_images'', return_images self)]"

text \<open>
  \<^verbatim>\<open>PerplexityRequest.to_dict\<close>: the loop over \<^verbatim>\<open>asdict(self).items()\<close>, with
  \<open>result\<close> the dict built so far.
\<close>

fun to_dict_loop :: "PerplexityRequest \<Rightarrow> dict \<Rightarrow> dict \<Rightarrow> dict" where
  "to_dict_loop self [] result = result"
| "to_dict_loop self ((key, value) # items) result =
     (if value \<noteq> JNull then
        (if key = ''messages''
         then to_dict_loop self items
                (AList.update key (JArr (map message_asdict (messages self))) result)
         else to_dict_loop self items (AList.update key value result))
      else to_dict_loop self items result)"

definition to_dict :: "PerplexityRequest \<Rightarrow> dict" where
  "to_dict self = to_dict_loop self (request_asdict self) []"

record PerplexityUsage =
  prompt_tokens :: json
  completion_tokens :: json
  total_tokens :: json

record PerplexityChoice =
  index :: json
  finish_reason :: json
  message :: PerplexityMessage

record PerplexitySearchResult =
  title :: json
  url :: json
  snippet :: json

record PerplexityResponse =
  resp_id :: json
  resp_object :: json
  resp_created :: json
  resp_model :: json
  choices :: "PerplexityChoice list"
  usage :: PerplexityUsage
  search_results :: "PerplexitySearchResult list option"
  related_questions :: json
  citations :: json

section \<open>API client (services/perplexity\_service.py)\<close>

text \<open>Sequencing of steps that may raise: the first exception ends the computation.\<close>

fun and_then :: "py_error + 'a \<Rightarrow> ('a \<Rightarrow> py_error + 'b) \<Rightarrow> py_error + 'b" where
  "and_then (Inl e) f = Inl e"
| "and_then (Inr x) f = f x"

subsection \<open>\_parse\_response\<close>

text \<open>The block under \<^verbatim>\<open># Parse usage\<close>.\<close>

definition parse_usage :: "json \<Rightarrow> py_error + PerplexityUsage" where
  "parse_usage response_data =
     and_then (py_get response_data ''usage'' (JObj [])) (\<lambda>usage_data.
     and_then (py_get usage_data ''prompt_tokens'' (JInt 0)) (\<lambda>pt.
     and_then (py_get usage_data ''completion_tokens'' (JInt 0)) (\<lambda>ct.
     and_then (py_get usage_data ''total_tokens'' (JInt 0)) (\<lambda>tt.
     Inr \<lparr>prompt_tokens = pt, completion_tokens = ct, total_tokens = tt\<rparr>))))"

text \<open>The body of the loop under \<^verbatim>\<open># Parse choices\<close>, and the loop.\<close>

definition parse_choice :: "json \<Rightarrow> py_error + PerplexityChoice" where
  "parse_choice choice_data =
     and_then (py_get choice_data ''message'' (JObj [])) (\<lambda>message_data.
     and_then (py_get message_data ''role'' (JStr [])) (\<lambda>r.
     and_then (py_get message_data ''content'' (JStr [])) (\<lambda>c.
     and_then (py_get choice_data ''index'' (JInt 0)) (\<lambda>i.
     and_then (py_get choice_data ''finish_reason'' (JStr [])) (\<lambda>f.
     Inr \<lparr>index = i, finish_reason = f, message = \<lparr>role = r, content = c\<rparr>\<rparr>)))))"

fun parse_choices :: "json list \<Rightarrow> py_error + PerplexityChoice list" where
  "parse_choices [] = Inr []"
| "parse_choices (choice_data # rest) =
     and_then (parse_choice choice_data) (\<lambda>choice.
     and_then (parse_choices rest) (\<lambda>choices. Inr (choice # choices)))"

text \<open>The body of the loop under \<^verbatim>\<open># Parse search results\<close>, and the loop.\<close>

definition parse_search_result :: "json \<Rightarrow> py_error + PerplexitySearchResult" where
  "parse_search_result sr_data =
     and_then (py_get sr_data ''title'' (JStr [])) (\<lambda>t.
     and_then (py_get sr_data ''url'' (JStr [])) (\<lambda>u.
     and_then (py_get sr_data ''snippet'' (JStr [])) (\<lambda>s.
     Inr \<lparr>title = t, url = u, snippet = s\<rparr>)))"

fun parse_search_results :: "json list \<Rightarrow> py_error + PerplexitySearchResult list" where
  "parse_search_results [] = Inr []"
| "parse_search_results (sr_data # rest) =
     and_then (parse_search_result sr_data) (\<lambda>sr.
     and_then (parse_search_results rest) (\<lambda>srs. Inr (sr # srs)))"

text \<open>
  \<^verbatim>\<open>_parse_response\<close>. \<open>Inl\<close> is the exception that the \<^verbatim>\<open>except\<close> clause reports
  and raises again. A payload that is not a dict fails at the first \<^verbatim>\<open>.get\<close>.
\<close>

fun parse_response :: "json \<Rightarrow> py_error + PerplexityResponse" where
  "parse_response (JObj kvs) =
     and_then (parse_usage (JObj kvs)) (\<lambda>usage_v.
     and_then (and_then (py_get (JObj kvs) ''choices'' (JArr [])) py_iter) (\<lambda>choices_data.
     and_then (parse_choices choices_data) (\<lambda>choices_v.
     and_then
       (case map_of kvs ''search_results'' of
          None \<Rightarrow> Inr []
        | Some v \<Rightarrow>
            if truthy v then and_then (py_iter v) parse_search_results else Inr [])
       (\<lambda>search_results_v.
     Inr \<lparr>resp_id = (case map_of kvs ''id'' of None \<Rightarrow> JStr [] | Some v \<Rightarrow> v),
          resp_object = (case map_of kvs ''object'' of None \<Rightarrow> JStr [] | Some v \<Rightarrow> v),
          resp_created = (case map_of kvs ''created'' of None \<Rightarrow> JInt 0 | Some v \<Rightarrow> v),
          resp_model = (case map_of kvs ''model'' of None \<Rightarrow> JStr [] | Some v \<Rightarrow> v),
          choices = choices_v,
          usage = usage_v,
          search_results = (if search_results_v \<noteq> [] then Some search_results_v else None),
          related_questions =
            (case map_of kvs ''related_questions'' of None \<Rightarrow> JNull | Some v \<Rightarrow> v),
          citations = (case map_of kvs ''citations'' of None \<Rightarrow> JNull | Some v \<Rightarrow> v)\<rparr>))))"
| "parse_response _ = Inl AttributeError"

subsection \<open>send\_request and send\_chat\_request\<close>

text \<open>
  What \<^verbatim>\<open>session.post\<close> does with a payload is a parameter of the model: it times
  out, fails with another \<^verbatim>\<open>RequestException\<close> or with any other exception, or
  returns a reply with a status code, a text and the result of \<^verbatim>\<open>response.json()\<close>
  (\<open>None\<close> when that raises).
\<close>

record http_reply =
  status_code :: int
  reply_text :: string
  reply_json :: "json option"

datatype post_outcome = Timeout | RequestException | OtherException | Reply http_reply

text \<open>\<^verbatim>\<open>send_request\<close>: every failure is reported and becomes \<^verbatim>\<open>None\<close>.\<close>

definition send_request ::
  "(dict \<Rightarrow> post_outcome) \<Rightarrow> PerplexityRequest \<Rightarrow> PerplexityResponse option" where
  "send_request post request =
     (let payload = to_dict request in
      case post payload of
        Timeout \<Rightarrow> None
      | RequestException \<Rightarrow> None
      | OtherException \<Rightarrow> None
      | Reply response \<Rightarrow>
          if status_code response = 200 then
            (case reply_json response of
               None \<Rightarrow> None
             | Some response_data \<Rightarrow>
                 (case parse_response response_data of
                    Inl e \<Rightarrow> None
                  | Inr r \<Rightarrow> Some r))
          else None)"

text \<open>\<^verbatim>\<open>kwargs.get(key, default)\<close> on the keyword arguments of a call.\<close>

definition kwargs_get :: "dict \<Rightarrow> string \<Rightarrow> json \<Rightarrow> json" where
  "kwargs_get kwargs key dflt = (case map_of kwargs key of None \<Rightarrow> dflt | Some v \<Rightarrow> v)"

text \<open>The local \<^verbatim>\<open>request\<close> that \<^verbatim>\<open>send_chat_request\<close> builds, and the call.\<close>

definition chat_request :: "string \<Rightarrow> string \<Rightarrow> dict \<Rightarrow> PerplexityRequest" where
  "chat_request prompt model_name kwargs =
     \<lparr>model = model_name,
      messages = [\<lparr>role = JStr ''user'', content = JStr prompt\<rparr>],
      max_tokens = kwargs_get kwargs ''max_tokens'' (JInt 1000),
      temperature = kwargs_get kwargs ''temperature'' (JFloat 0.7),
      top_p = kwargs_get kwargs ''top_p'' (JFloat 1),
      presence_penalty = kwargs_get kwargs ''presence_penalty'' (JFloat 0),
      frequency_penalty = kwargs_get kwargs ''frequency_penalty'' (JFloat 0),
      stream = JBool False,
      return_citations = kwargs_get kwargs ''return_citations'' (JBool True),
      return_related_questions = kwargs_get kwargs ''return_related_questions'' (JBool True),
      return_images = kwargs_get kwargs ''return_images'' (JBool False)\<rparr>"

definition send_chat_request ::
  "(dict \<Rightarrow> post_outcome) \<Rightarrow> string \<Rightarrow> string \<Rightarrow> dict \<Rightarrow> PerplexityResponse option" where
  "send_chat_request post prompt model_name kwargs =
     send_request post (chat_request prompt model_name kwargs)"

section \<open>Audit store (services/data\_service.py)\<close>

subsection \<open>Collection files\<close>

text \<open>
  The four files of the store. A file system maps a path to the text of the file, if
  the file exists. \<^verbatim>\<open>json.dump\<close> and \<^verbatim>\<open>json.load\<close> belong to the Python library
  and are parameters: \<open>json_dump data\<close> is the text that \<^verbatim>\<open>json.dump\<close> writes for
  \<open>data\<close> (what it had written when it raised, if it raises), and \<open>json_load text\<close>
  is \<open>None\<close> when \<^verbatim>\<open>json.load\<close> raises. Both methods catch every exception and
  only display it. Opening a file for writing succeeds in the model (the constructor
  has created the data directory); opening a file that does not exist for reading
  raises.
\<close>

datatype path = requests_file | prompts_file | responses_file | config_file

type_synonym files = "path \<Rightarrow> string option"

definition load_json :: "(string \<Rightarrow> json option) \<Rightarrow> files \<Rightarrow> path \<Rightarrow> json" where
  "load_json json_load fs file_path =
     (case fs file_path of
        None \<Rightarrow> (if file_path \<noteq> config_file then JArr [] else JObj [])
      | Some text \<Rightarrow>
          (case json_load text of
             None \<Rightarrow> (if file_path \<noteq> config_file then JArr [] else JObj [])
           | Some data \<Rightarrow> data))"

definition save_json :: "(json \<Rightarrow> string) \<Rightarrow> files \<Rightarrow> path \<Rightarrow> json \<Rightarrow> files" where
  "save_json json_dump fs file_path data = fs(file_path \<mapsto> json_dump data)"

subsection \<open>Request log\<close>

text \<open>
  An entry of the request log is the dict that \<^verbatim>\<open>ApiRequestLog.to_dict\<close> writes: all
  fifteen keys are present, so a key of the dict is a field of the record. The
  operations below work on the collection that \<^verbatim>\<open>_load_json\<close> returns and hand
  \<^verbatim>\<open>_save_json\<close> the collection they return. An instant is a number of microseconds;
  the file holds it in ISO format. The clock reading and the identifier drawn by
  \<^verbatim>\<open>uuid.uuid4\<close> are arguments.
\<close>

record ApiRequestLog =
  log_id :: string
  log_timestamp :: int
  log_model :: string
  log_prompt :: json
  request_json :: string
  response_json :: "string option"
  response_id :: json
  response_content :: json
  log_prompt_tokens :: json
  log_completion_tokens :: json
  log_total_tokens :: json
  status :: string
  error_message :: "string option"
  duration_ms :: "int option"
  log_search_results :: "PerplexitySearchResult list"

definition log_request ::
  "int \<Rightarrow> string \<Rightarrow> PerplexityRequest \<Rightarrow> string \<Rightarrow> ApiRequestLog list
     \<Rightarrow> string \<times> ApiRequestLog list" where
  "log_request now request_id request request_json_v requests =
     (let log_entry =
        \<lparr>log_id = request_id,
         log_timestamp = now,
         log_model = model request,
         log_prompt = (case messages request of [] \<Rightarrow> JStr [] | m # ms \<Rightarrow> content m),
         request_json = request_json_v,
         response_json = None,
         response_id = JNull,
         response_content = JNull,
         log_prompt_tokens = JNull,
         log_completion_tokens = JNull,
         log_total_tokens = JNull,
         status = ''sent'',
         error_message = None,
         duration_ms = None,
         log_search_results = []\<rparr>
      in (request_id, requests @ [log_entry]))"

text \<open>
  \<^verbatim>\<open>update_response\<close> and \<^verbatim>\<open>update_error\<close>: the loop changes the first entry with
  the id and stops (\<^verbatim>\<open>break\<close>); the collection is saved in every case.
\<close>

fun update_response ::
  "string \<Rightarrow> PerplexityResponse \<Rightarrow> string \<Rightarrow> int \<Rightarrow> ApiRequestLog list
     \<Rightarrow> ApiRequestLog list" where
  "update_response request_id response response_json_v duration [] = []"
| "update_response request_id response response_json_v duration (request # rest) =
     (if log_id request = request_id then
        (let request1 = request
               \<lparr>response_json := Some response_json_v,
                response_id := resp_id response,
                response_content :=
                  (case choices response of [] \<Rightarrow> JStr [] | c # cs \<Rightarrow> content (message c)),
                log_prompt_tokens := prompt_tokens (usage response),
                log_completion_tokens := completion_tokens (usage response),
                log_total_tokens := total_tokens (usage response),
                status := ''completed'',
                duration_ms := Some duration\<rparr>
         in (case search_results response of
               None \<Rightarrow> request1
             | Some srs \<Rightarrow>
                 if srs \<noteq> [] then request1\<lparr>log_search_results := srs\<rparr> else request1) # rest)
      else request # update_response request_id response response_json_v duration rest)"

fun update_error :: "string \<Rightarrow> string \<Rightarrow> int \<Rightarrow> ApiRequestLog list \<Rightarrow> ApiRequestLog list" where
  "update_error request_id error_message_v duration [] = []"
| "update_error request_id error_message_v duration (request # rest) =
     (if log_id request = request_id then
        request\<lparr>status := ''error'',
                error_message := Some error_message_v,
                duration_ms := Some duration\<rparr> # rest
      else request # update_error request_id error_message_v duration rest)"

fun get_request_by_id :: "string \<Rightarrow> ApiRequestLog list \<Rightarrow> ApiRequestLog option" where
  "get_request_by_id request_id [] = None"
| "get_request_by_id request_id (request # rest) =
     (if log_id request = request_id then Some request
      else get_request_by_id request_id rest)"

subsection \<open>Float arithmetic\<close>

text \<open>
  A Python float is an IEEE 754 double: a 53-bit significand and a unit in the last
  place of \<open>2 powi e\<close> with \<open>e\<close> from -1074 to 971. Every operation returns the double
  nearest to the exact result, a tie going to the even significand.

  \<open>round_half_even\<close> rounds a real to the nearest integer in that way.
  \<open>ulp_exponent fuel e a\<close> searches upwards from \<open>e\<close> for the exponent of the unit in
  the last place of a positive \<open>a\<close>: the first \<open>e\<close> with \<open>a < 2 powi (e + 53)\<close>, and
  the last exponent tried when the fuel is used up. From -1074 with 2045 steps the
  last one is 971. \<open>nearest_double x\<close> is then the nearest double when its exponent is
  unbounded above: a result of magnitude \<open>2 ^ 1024\<close> or more is out of range.
\<close>

definition round_half_even :: "real \<Rightarrow> int" where
  "round_half_even r =
     (let f = \<lfloor>r\<rfloor>; d = r - of_int f
      in if d < 1 / 2 then f else if 1 / 2 < d then f + 1 else if even f then f else f + 1)"

fun ulp_exponent :: "nat \<Rightarrow> int \<Rightarrow> real \<Rightarrow> int" where
  "ulp_exponent 0 e a = e"
| "ulp_exponent (Suc fuel) e a =
     (if a < 2 powi (e + 53) then e else ulp_exponent fuel (e + 1) a)"

definition nearest_double :: "real \<Rightarrow> real" where
  "nearest_double x =
     (if x = 0 then 0
      else let q = 2 powi (ulp_exponent 2045 (- 1074) \<bar>x\<bar>)
           in sgn x * of_int (round_half_even (\<bar>x\<bar> / q)) * q)"

text \<open>
  A float value: finite, an infinity (\<open>True\<close> for the positive one) or not a number.
  The two zeros are one value. An operation on floats whose result is out of range
  gives an infinity.
\<close>

datatype py_float = Finite real | Infinity bool | NaN

definition round_double :: "real \<Rightarrow> py_float" where
  "round_double x =
     (let y = nearest_double x in if 2 ^ 1024 \<le> \<bar>y\<bar> then Infinity (0 < x) else Finite y)"

fun float_add :: "py_float \<Rightarrow> py_float \<Rightarrow> py_float" where
  "float_add (Finite x) (Finite y) = round_double (x + y)"
| "float_add NaN b = NaN"
| "float_add a NaN = NaN"
| "float_add (Infinity s) (Infinity t) = (if s = t then Infinity s else NaN)"
| "float_add (Infinity s) (Finite y) = Infinity s"
| "float_add (Finite x) (Infinity t) = Infinity t"

fun float_mul :: "py_float \<Rightarrow> py_float \<Rightarrow> py_float" where
  "float_mul (Finite x) (Finite y) = round_double (x * y)"
| "float_mul NaN b = NaN"
| "float_mul a NaN = NaN"
| "float_mul (Infinity s) (Infinity t) = Infinity (s = t)"
| "float_mul (Infinity s) (Finite y) = (if y = 0 then NaN else Infinity (s = (0 < y)))"
| "float_mul (Finite x) (Infinity t) = (if x = 0 then NaN else Infinity ((0 < x) = t))"

text \<open>\<^verbatim>\<open>x / y\<close> on floats: Python raises ZeroDivisionError for a zero divisor.\<close>

fun float_div :: "py_float \<Rightarrow> py_float \<Rightarrow> py_error + py_float" where
  "float_div a (Finite y) =
     (if y = 0 then Inl ZeroDivisionError
      else Inr (case a of
                  Finite x \<Rightarrow> round_double (x / y)
                | Infinity s \<Rightarrow> Infinity (s = (0 < y))
                | NaN \<Rightarrow> NaN))"
| "float_div a (Infinity t) = Inr (case a of Finite x \<Rightarrow> Finite 0 | Infinity s \<Rightarrow> NaN | NaN \<Rightarrow> NaN)"
| "float_div a NaN = Inr NaN"

text \<open>
  \<^verbatim>\<open>float(i)\<close> as arithmetic applies it to an int operand, and \<^verbatim>\<open>i / j\<close> on two
  ints: both give the nearest double of the exact value and raise OverflowError when
  that is out of range.
\<close>

definition int_to_float :: "int \<Rightarrow> py_error + py_float" where
  "int_to_float i =
     (let y = nearest_double (of_int i)
      in if 2 ^ 1024 \<le> \<bar>y\<bar> then Inl OverflowError else Inr (Finite y))"

definition int_truediv :: "int \<Rightarrow> int \<Rightarrow> py_error + py_float" where
  "int_truediv i j =
     (if j = 0 then Inl ZeroDivisionError
      else let y = nearest_double (of_int i / of_int j)
           in if 2 ^ 1024 \<le> \<bar>y\<bar> then Inl OverflowError else Inr (Finite y))"

subsection \<open>Usage statistics\<close>

text \<open>
  A Python number is an int or a float; a bool counts as an int. \<^verbatim>\<open>+\<close>, \<^verbatim>\<open>*\<close>
  and \<^verbatim>\<open>/\<close> on two ints are exact addition, exact multiplication and true
  division; with a float operand the int operand is converted and the operation is
  that of floats. \<^verbatim>\<open>sum\<close> starts from the int 0 and adds the items from left to
  right (as CPython does up to version 3.11; later versions add floats with a
  correction term); an item that is not a number raises TypeError.
\<close>

datatype py_number = PyInt int | PyFloat py_float

fun as_number :: "json \<Rightarrow> py_number option" where
  "as_number (JBool b) = Some (PyInt (if b then 1 else 0))"
| "as_number (JInt i) = Some (PyInt i)"
| "as_number (JFloat x) = Some (PyFloat (Finite x))"
| "as_number _ = None"

fun to_float :: "py_number \<Rightarrow> py_error + py_float" where
  "to_float (PyInt i) = int_to_float i"
| "to_float (PyFloat x) = Inr x"

fun number_add :: "py_number \<Rightarrow> py_number \<Rightarrow> py_error + py_number" where
  "number_add (PyInt i) (PyInt j) = Inr (PyInt (i + j))"
| "number_add a b =
     and_then (to_float a) (\<lambda>x. and_then (to_float b) (\<lambda>y. Inr (PyFloat (float_add x y))))"

fun number_mul :: "py_number \<Rightarrow> py_number \<Rightarrow> py_error + py_number" where
  "number_mul (PyInt i) (PyInt j) = Inr (PyInt (i * j))"
| "number_mul a b =
     and_then (to_float a) (\<lambda>x. and_then (to_float b) (\<lambda>y. Inr (PyFloat (float_mul x y))))"

fun number_truediv :: "py_number \<Rightarrow> py_number \<Rightarrow> py_error + py_number" where
  "number_truediv (PyInt i) (PyInt j) = and_then (int_truediv i j) (\<lambda>q. Inr (PyFloat q))"
| "number_truediv a b =
     and_then (to_float a) (\<lambda>x. and_then (to_float b) (\<lambda>y.
     and_then (float_div x y) (\<lambda>q. Inr (PyFloat q))))"

fun py_sum :: "py_number \<Rightarrow> json list \<Rightarrow> py_error + py_number" where
  "py_sum acc [] = Inr acc"
| "py_sum acc (x # xs) =
     (case as_number x of
        None \<Rightarrow> Inl TypeError
      | Some n \<Rightarrow>
          (case number_add acc n of
             Inl e \<Rightarrow> Inl e
           | Inr acc' \<Rightarrow> py_sum acc' xs))"

record UsageStatistics =
  total_requests :: int
  completed_requests :: int
  stat_total_tokens :: py_number
  success_rate :: py_number
  model_usage :: "(string \<times> int) list"
  recent_requests :: int
  avg_tokens_per_request :: py_number

text \<open>The loop under \<^verbatim>\<open># Model usage\<close>, with the dict built so far.\<close>

fun model_usage_loop :: "ApiRequestLog list \<Rightarrow> (string \<times> int) list \<Rightarrow> (string \<times> int) list" where
  "model_usage_loop [] usage_so_far = usage_so_far"
| "model_usage_loop (request # rest) usage_so_far =
     model_usage_loop rest
       (AList.update (log_model request)
          ((case map_of usage_so_far (log_model request) of None \<Rightarrow> 0 | Some n \<Rightarrow> n) + 1)
          usage_so_far)"

text \<open>\<^verbatim>\<open>timedelta(days=7)\<close> in microseconds.\<close>

definition seven_days :: int where
  "seven_days = 7 * 24 * 60 * 60 * 1000000"

text \<open>
  \<^verbatim>\<open>get_usage_statistics\<close>, given the clock reading, in the order of the source: the
  counts, the sum of the token counts, \<^verbatim>\<open>completed_requests / total_requests * 100\<close>,
  the requests per model, the recent requests, and
  \<^verbatim>\<open>total_tokens / completed_requests\<close> when the result is built. The sum and the
  two divisions can raise; where the source guards a division, the int 0 stands in.
\<close>

definition get_usage_statistics :: "int \<Rightarrow> ApiRequestLog list \<Rightarrow> py_error + UsageStatistics" where
  "get_usage_statistics now requests =
     (let total = int (length requests);
          completed = int (length (filter (\<lambda>r. status r = ''completed'') requests))
      in and_then
           (py_sum (PyInt 0) (filter truthy (map log_total_tokens requests)))
           (\<lambda>tokens.
         and_then
           (if total > 0
            then and_then (number_truediv (PyInt completed) (PyInt total))
                   (\<lambda>q. number_mul q (PyInt 100))
            else Inr (PyInt 0))
           (\<lambda>rate.
              let usage_by_model = model_usage_loop requests [];
                  recent_date = now - seven_days;
                  recent = filter (\<lambda>r. log_timestamp r \<ge> recent_date) requests
              in and_then
                   (if completed > 0 then number_truediv tokens (PyInt completed)
                    else Inr (PyInt 0))
                   (\<lambda>average.
                      Inr \<lparr>total_requests = total,
                           completed_requests = completed,
                           stat_total_tokens = tokens,
                           success_rate = rate,
                           model_usage = usage_by_model,
                           recent_requests = int (length recent),
                           avg_tokens_per_request = average\<rparr>))))"

subsection \<open>Saved prompts\<close>

text \<open>A saved prompt is the dict that \<^verbatim>\<open>save_prompt\<close> writes, with its eight keys.\<close>

record SavedPrompt =
  prompt_id :: string
  prompt_name :: string
  prompt_description :: string
  prompt_content :: string
  prompt_category :: string
  created_at :: int
  last_used :: "int option"
  usage_count :: int

definition save_prompt ::
  "int \<Rightarrow> string \<Rightarrow> string \<Rightarrow> string \<Rightarrow> string \<Rightarrow> string \<Rightarrow> SavedPrompt list
     \<Rightarrow> string \<times> SavedPrompt list" where
  "save_prompt now new_id name_v content_v description category prompts =
     (let new_prompt =
        \<lparr>prompt_id = new_id,
         prompt_name = name_v,
         prompt_description = description,
         prompt_content = content_v,
         prompt_category = category,
         created_at = now,
         last_used = None,
         usage_count = 0\<rparr>
      in (new_id, prompts @ [new_prompt]))"

fun update_prompt_usage :: "int \<Rightarrow> string \<Rightarrow> SavedPrompt list \<Rightarrow> SavedPrompt list" where
  "update_prompt_usage now pid [] = []"
| "update_prompt_usage now pid (prompt # rest) =
     (if prompt_id prompt = pid then
        prompt\<lparr>last_used := Some now, usage_count := usage_count prompt + 1\<rparr> # rest
      else prompt # update_prompt_usage now pid rest)"

definition delete_prompt :: "string \<Rightarrow> SavedPrompt list \<Rightarrow> SavedPrompt list" where
  "delete_prompt pid prompts = filter (\<lambda>p. prompt_id p \<noteq> pid) prompts"

text \<open>The first prompt with an id, as the loop of \<^verbatim>\<open>update_prompt_usage\<close> finds it.\<close>

fun prompt_by_id :: "string \<Rightarrow> SavedPrompt list \<Rightarrow> SavedPrompt option" where
  "prompt_by_id pid [] = None"
| "prompt_by_id pid (prompt # rest) =
     (if prompt_id prompt = pid then Some prompt else prompt_by_id pid rest)"

subsection \<open>Sequences of outcome calls on one request id\<close>

datatype outcome_call =
    UpdateResponse PerplexityResponse string int
  | UpdateError string int

fun apply_call :: "string \<Rightarrow> outcome_call \<Rightarrow> ApiRequestLog list \<Rightarrow> ApiRequestLog list" where
  "apply_call request_id (UpdateResponse response response_json_v duration) requests =
     update_response request_id response response_json_v duration requests"
| "apply_call request_id (UpdateError error_message_v duration) requests =
     update_error request_id error_message_v duration requests"

fun apply_calls :: "string \<Rightarrow> outcome_call list \<Rightarrow> ApiRequestLog list \<Rightarrow> ApiRequestLog list" where
  "apply_calls request_id [] requests = requests"
| "apply_calls request_id (c # cs) requests =
     apply_calls request_id cs (apply_call request_id c requests)"

subsection \<open>Example data\<close>

text \<open>
  A reply of the API and the response parsed from it, a chat request, and the request
  log of the statistics example: three completed entries with 10, 20 and 30 tokens and
  one failed entry, logged 10, 8, 5 and 1 days before the clock reading \<open>example_now\<close>.
\<close>

definition example_payload :: dict where
  "example_payload =
     [(''id'', JStr ''r-1''),
      (''model'', JStr ''sonar-pro''),
      (''choices'',
         JArr [JObj [(''index'', JInt 0),
                     (''finish_reason'', JStr ''stop''),
                     (''message'', JObj [(''role'', JStr ''assistant''),
                                         (''content'', JStr ''hello'')])]]),
      (''usage'', JObj [(''prompt_tokens'', JInt 3),
                        (''completion_tokens'', JInt 4),
                        (''total_tokens'', JInt 7)]),
      (''search_results'', JArr [JObj [(''title'', JStr ''t''), (''url'', JStr ''u'')]]),
      (''citations'', JArr [JStr ''c''])]"

definition example_response :: PerplexityResponse where
  "example_response =
     \<lparr>resp_id = JStr ''r-1'', resp_object = JStr [], resp_created = JInt 0,
      resp_model = JStr ''sonar-pro'',
      choices = [\<lparr>index = JInt 0, finish_reason = JStr ''stop'',
                  message = \<lparr>role = JStr ''assistant'', content = JStr ''hello''\<rparr>\<rparr>],
      usage = \<lparr>prompt_tokens = JInt 3, completion_tokens = JInt 4, total_tokens = JInt 7\<rparr>,
      search_results = Some [\<lparr>title = JStr ''t'', url = JStr ''u'', snippet = JStr []\<rparr>],
      related_questions = JNull,
      citations = JArr [JStr ''c'']\<rparr>"

definition example_request :: PerplexityRequest where
  "example_request =
     \<lparr>model = ''sonar'',
      messages = [\<lparr>role = JStr ''user'', content = JStr ''hi''\<rparr>],
      max_tokens = JInt 50, temperature = JNull, top_p = JNull, presence_penalty = JNull,
      frequency_penalty = JNull, stream = JBool False, return_citations = JNull,
      return_related_questions = JNull, return_images = JNull\<rparr>"

definition day :: int where
  "day = 24 * 60 * 60 * 1000000"

definition example_entry :: "string \<Rightarrow> int \<Rightarrow> string \<Rightarrow> string \<Rightarrow> json \<Rightarrow> ApiRequestLog" where
  "example_entry rid t m st tokens =
     \<lparr>log_id = rid, log_timestamp = t, log_model = m, log_prompt = JStr ''hi'',
      request_json = ''{}'', response_json = None, response_id = JNull,
      response_content = JNull, log_prompt_tokens = JNull, log_completion_tokens = JNull,
      log_total_tokens = tokens, status = st, error_message = None, duration_ms = None,
      log_search_results = []\<rparr>"

definition example_now :: int where
  "example_now = 10 * day"

definition example_log :: "ApiRequestLog list" where
  "example_log =
     [example_entry ''a'' 0 ''sonar-pro'' ''completed'' (JInt 10),
      example_entry ''b'' (2 * day) ''sonar'' ''completed'' (JInt 20),
      example_entry ''c'' (5 * day) ''sonar-pro'' ''completed'' (JInt 30),
      example_entry ''d'' (9 * day) ''sonar'' ''error'' JNull]"

definition example_prompt :: "string \<Rightarrow> SavedPrompt" where
  "example_prompt pid =
     \<lparr>prompt_id = pid, prompt_name = ''News Summary'', prompt_description = [],
      prompt_content = ''news'', prompt_category = ''News'', created_at = 0,
      last_used = None, usage_count = 0\<rparr>"

section \<open>Properties of the request model and the client\<close>

subsection \<open>to\_dict\<close>

lemma update_absent: "k \<notin> fst ` set al \<Longrightarrow> AList.update k v al = al @ [(k, v)]"
  by (induction al) auto

text \<open>
  On items with distinct keys that are not yet in \<open>result\<close>, the loop appends the items
  whose value is not \<^verbatim>\<open>None\<close>; the value it recomputes for \<open>messages\<close> is the one
  \<^verbatim>\<open>asdict\<close> had put there.
\<close>

lemma to_dict_loop_filter:
  "distinct (map fst result @ map fst items) \<Longrightarrow>
   map_of items ''messages'' = None \<or>
     map_of items ''messages'' = Some (JArr (map message_asdict (messages self))) \<Longrightarrow>
   to_dict_loop self items result = result @ filter (\<lambda>kv. snd kv \<noteq> JNull) items"
proof (induction items arbitrary: result)
  case Nil
  then show ?case by simp
next
  case (Cons kv items)
  obtain key val where kv: "kv = (key, val)" by (cases kv)
  have fresh: "key \<notin> fst ` set result" using Cons.prems(1) kv by auto
  have dist: "distinct (map fst (result @ [(key, v)]) @ map fst items)" for v
    using Cons.prems(1) kv by auto
  have msgs: "map_of items ''messages'' = None \<or>
              map_of items ''messages'' = Some (JArr (map message_asdict (messages self)))"
    using Cons.prems kv by (auto split: if_splits simp: map_of_eq_None_iff image_iff)
  show ?case
  proof (cases "val = JNull")
    case True
    have "distinct (map fst result @ map fst items)" using Cons.prems(1) by auto
    from Cons.IH[OF this msgs] show ?thesis using True kv by simp
  next
    case False
    have same: "key = ''messages'' \<Longrightarrow> val = JArr (map message_asdict (messages self))"
      using Cons.prems(2) kv by auto
    have "to_dict_loop self (kv # items) result = to_dict_loop self items (result @ [(key, val)])"
      using False kv same fresh by (auto simp: update_absent)
    also have "\<dots> = (result @ [(key, val)]) @ filter (\<lambda>kv. snd kv \<noteq> JNull) items"
      using Cons.IH[of "result @ [(key, val)]"] dist[of val] msgs by simp
    finally show ?thesis using False kv by simp
  qed
qed

lemma to_dict_filter: "to_dict self = filter (\<lambda>kv. snd kv \<noteq> JNull) (request_asdict self)"
  unfolding to_dict_def
  by (subst to_dict_loop_filter) (simp_all add: request_asdict_def)

lemma map_of_filter_snd:
  assumes "distinct (map fst xs)"
  shows "map_of (filter (\<lambda>kv. P (snd kv)) xs) k =
           (case map_of xs k of None \<Rightarrow> None | Some v \<Rightarrow> if P v then Some v else None)"
  using assms
  by (induction xs) (auto split: option.splits simp: map_of_eq_None_iff image_iff)

lemma distinct_request_asdict: "distinct (map fst (request_asdict self))"
  by (simp add: request_asdict_def)

lemma to_dict_lookup:
  "map_of (to_dict self) k =
     (case map_of (request_asdict self) k of
        None \<Rightarrow> None
      | Some v \<Rightarrow> if v \<noteq> JNull then Some v else None)"
  using map_of_filter_snd[OF distinct_request_asdict, of "\<lambda>v. v \<noteq> JNull" self k]
  by (simp add: to_dict_filter)

lemma to_dict_no_null: "(k, v) \<in> set (to_dict self) \<Longrightarrow> v \<noteq> JNull"
  by (auto simp add: to_dict_filter)

lemma to_dict_distinct: "distinct (map fst (to_dict self))"
  by (simp add: to_dict_filter distinct_map_filter distinct_request_asdict)

lemma to_dict_keys:
  "fst ` set (to_dict self) \<subseteq>
     {''model'', ''messages'', ''max_tokens'', ''temperature'', ''top_p'',
      ''presence_penalty'', ''frequency_penalty'', ''stream'', ''return_citations'',
      ''return_related_questions'', ''return_images''}"
proof -
  have "fst ` set (to_dict self) \<subseteq> fst ` set (request_asdict self)"
    unfolding to_dict_filter by (rule image_mono) simp
  also have "\<dots> =
     {''model'', ''messages'', ''max_tokens'', ''temperature'', ''top_p'',
      ''presence_penalty'', ''frequency_penalty'', ''stream'', ''return_citations'',
      ''return_related_questions'', ''return_images''}"
    by (simp add: request_asdict_def)
  finally show ?thesis .
qed

lemma to_dict_model: "map_of (to_dict self) ''model'' = Some (JStr (model self))"
  by (simp add: to_dict_lookup request_asdict_def)

lemma to_dict_messages:
  "map_of (to_dict self) ''messages'' =
     Some (JArr (map (\<lambda>m. JObj [(''role'', role m), (''content'', content m)]) (messages self)))"
  by (simp add: to_dict_lookup request_asdict_def message_asdict_def)

lemma to_dict_optional:
  "map_of (to_dict self) ''max_tokens'' =
     (if max_tokens self = JNull then None else Some (max_tokens self))"
  "map_of (to_dict self) ''temperature'' =
     (if temperature self = JNull then None else Some (temperature self))"
  "map_of (to_dict self) ''top_p'' = (if top_p self = JNull then None else Some (top_p self))"
  "map_of (to_dict self) ''presence_penalty'' =
     (if presence_penalty self = JNull then None else Some (presence_penalty self))"
  "map_of (to_dict self) ''frequency_penalty'' =
     (if frequency_penalty self = JNull then None else Some (frequency_penalty self))"
  "map_of (to_dict self) ''stream'' = (if stream self = JNull then None else Some (stream self))"
  "map_of (to_dict self) ''return_citations'' =
     (if return_citations self = JNull then None else Some (return_citations self))"
  "map_of (to_dict self) ''return_related_questions'' =
     (if return_related_questions self = JNull then None
      else Some (return_related_questions self))"
  "map_of (to_dict self) ''return_images'' =
     (if return_images self = JNull then None else Some (return_images self))"
  by (simp_all add: to_dict_lookup request_asdict_def)

text \<open>
  C6. The payload of a request has no key with a null value and no key twice, and
  only the eleven field names as keys. \<open>model\<close> and \<open>messages\<close> are always there, the
  messages as the list of their \<open>role\<close>/\<open>content\<close> dicts in order. Each of the nine
  optional fields is a key of the payload exactly when it is not \<^verbatim>\<open>None\<close>, and then
  with its value.
\<close>

theorem to_dict_omits_unset:
  "(\<forall>k v. (k, v) \<in> set (to_dict self) \<longrightarrow> v \<noteq> JNull) \<and>
   distinct (map fst (to_dict self)) \<and>
   fst ` set (to_dict self) \<subseteq>
     {''model'', ''messages'', ''max_tokens'', ''temperature'', ''top_p'',
      ''presence_penalty'', ''frequency_penalty'', ''stream'', ''return_citations'',
      ''return_related_questions'', ''return_images''} \<and>
   map_of (to_dict self) ''model'' = Some (JStr (model self)) \<and>
   map_of (to_dict self) ''messages'' =
     Some (JArr (map (\<lambda>m. JObj [(''role'', role m), (''content'', content m)])
                  (messages self))) \<and>
   map_of (to_dict self) ''max_tokens'' =
     (if max_tokens self = JNull then None else Some (max_tokens self)) \<and>
   map_of (to_dict self) ''temperature'' =
     (if temperature self = JNull then None else Some (temperature self)) \<and>
   map_of (to_dict self) ''top_p'' =
     (if top_p self = JNull then None else Some (top_p self)) \<and>
   map_of (to_dict self) ''presence_penalty'' =
     (if presence_penalty self = JNull then None else Some (presence_penalty self)) \<and>
   map_of (to_dict self) ''frequency_penalty'' =
     (if frequency_penalty self = JNull then None else Some (frequency_penalty self)) \<and>
   map_of (to_dict self) ''stream'' =
     (if stream self = JNull then None else Some (stream self)) \<and>
   map_of (to_dict self) ''return_citations'' =
     (if return_citations self = JNull then None else Some (return_citations self)) \<and>
   map_of (to_dict self) ''return_related_questions'' =
     (if return_related_questions self = JNull then None
      else Some (return_related_questions self)) \<and>
   map_of (to_dict self) ''return_images'' =
     (if return_images self = JNull then None else Some (return_images self))"
proof -
  have "\<forall>k v. (k, v) \<in> set (to_dict self) \<longrightarrow> v \<noteq> JNull"
    using to_dict_no_null by blast
  then show ?thesis
    using to_dict_distinct[of self] to_dict_keys[of self] to_dict_model[of self]
      to_dict_messages[of self] to_dict_optional[of self]
    by blast
qed

text \<open>
  The example request sets \<open>max_tokens\<close> and \<open>stream\<close> only: its payload has these two
  keys after \<open>model\<close> and \<open>messages\<close>, and no \<open>temperature\<close>.
\<close>

theorem to_dict_omits_unset_witness:
  "to_dict example_request =
     [(''model'', JStr ''sonar''),
      (''messages'', JArr [JObj [(''role'', JStr ''user''), (''content'', JStr ''hi'')]]),
      (''max_tokens'', JInt 50),
      (''stream'', JBool False)] \<and>
   map_of (to_dict example_request) ''max_tokens'' = Some (JInt 50) \<and>
   map_of (to_dict example_request) ''temperature'' = None \<and>
   JInt 50 \<noteq> JNull"
proof -
  have payload: "to_dict example_request =
     [(''model'', JStr ''sonar''),
      (''messages'', JArr [JObj [(''role'', JStr ''user''), (''content'', JStr ''hi'')]]),
      (''max_tokens'', JInt 50),
      (''stream'', JBool False)]"
    by (simp add: to_dict_def request_asdict_def example_request_def message_asdict_def)
  have "(''max_tokens'', JInt 50) \<in> set (to_dict example_request)"
    by (simp add: payload)
  with to_dict_omits_unset[of example_request] have "JInt 50 \<noteq> JNull"
    by blast
  moreover have "map_of (to_dict example_request) ''max_tokens'' = Some (JInt 50)"
    using to_dict_omits_unset[of example_request] by (simp add: example_request_def)
  moreover have "map_of (to_dict example_request) ''temperature'' = None"
    using to_dict_omits_unset[of example_request] by (simp add: example_request_def)
  ultimately show ?thesis using payload by simp
qed

subsection \<open>send\_chat\_request\<close>

lemma chat_request_defaults:
  "chat_request prompt model_name [] =
     \<lparr>model = model_name,
      messages = [\<lparr>role = JStr ''user'', content = JStr prompt\<rparr>],
      max_tokens = JInt 1000, temperature = JFloat 0.7, top_p = JFloat 1,
      presence_penalty = JFloat 0, frequency_penalty = JFloat 0,
      stream = JBool False, return_citations = JBool True,
      return_related_questions = JBool True, return_images = JBool False\<rparr>"
  by (simp add: chat_request_def kwargs_get_def)

lemma chat_request_fixed:
  "model (chat_request prompt model_name kwargs) = model_name"
  "messages (chat_request prompt model_name kwargs) =
     [\<lparr>role = JStr ''user'', content = JStr prompt\<rparr>]"
  "stream (chat_request prompt model_name kwargs) = JBool False"
  by (simp_all add: chat_request_def)

lemma chat_request_options:
  "max_tokens (chat_request prompt model_name kwargs) =
     (case map_of kwargs ''max_tokens'' of None \<Rightarrow> JInt 1000 | Some v \<Rightarrow> v)"
  "temperature (chat_request prompt model_name kwargs) =
     (case map_of kwargs ''temperature'' of None \<Rightarrow> JFloat 0.7 | Some v \<Rightarrow> v)"
  "top_p (chat_request prompt model_name kwargs) =
     (case map_of kwargs ''top_p'' of None \<Rightarrow> JFloat 1 | Some v \<Rightarrow> v)"
  "presence_penalty (chat_request prompt model_name kwargs) =
     (case map_of kwargs ''presence_penalty'' of None \<Rightarrow> JFloat 0 | Some v \<Rightarrow> v)"
  "frequency_penalty (chat_request prompt model_name kwargs) =
     (case map_of kwargs ''frequency_penalty'' of None \<Rightarrow> JFloat 0 | Some v \<Rightarrow> v)"
  "return_citations (chat_request prompt model_name kwargs) =
     (case map_of kwargs ''return_citations'' of None \<Rightarrow> JBool True | Some v \<Rightarrow> v)"
  "return_related_questions (chat_request prompt model_name kwargs) =
     (case map_of kwargs ''return_related_questions'' of None \<Rightarrow> JBool True | Some v \<Rightarrow> v)"
  "return_images (chat_request prompt model_name kwargs) =
     (case map_of kwargs ''return_images'' of None \<Rightarrow> JBool False | Some v \<Rightarrow> v)"
  by (simp_all add: chat_request_def kwargs_get_def)

text \<open>
  C7, as stated, fails for \<open>stream\<close>: the call \<^verbatim>\<open>send_chat_request("hi", "sonar-pro",
  stream=True)\<close> supplies the option, and the request it builds still has
  \<open>stream = False\<close>, because the function passes the literal \<^verbatim>\<open>False\<close> and never reads
  \<open>stream\<close> from its keyword arguments.
\<close>

theorem chat_request_stream_not_overridden:
  "map_of [(''stream'', JBool True)] ''stream'' = Some (JBool True) \<and>
   stream (chat_request ''hi'' ''sonar-pro'' [(''stream'', JBool True)]) = JBool False"
  by (simp add: chat_request_def)

text \<open>
  C7, amended. \<^verbatim>\<open>send_chat_request\<close> hands \<^verbatim>\<open>send_request\<close> the request it builds.
  With no keyword argument that request has the model, one message with role
  \<open>user\<close> and the prompt as content, and the defaults max_tokens 1000, temperature 0.7,
  top_p 1, both penalties 0, return_citations and return_related_questions true,
  return_images false and stream false. With keyword arguments, model and message are
  the same, \<open>stream\<close> is false whatever was supplied, and each of the eight options
  max_tokens, temperature, top_p, presence_penalty, frequency_penalty,
  return_citations, return_related_questions and return_images has the supplied value
  if one was supplied and its default otherwise.
\<close>

theorem send_chat_request_defaults:
  "send_chat_request post prompt model_name kwargs =
     send_request post (chat_request prompt model_name kwargs) \<and>
   chat_request prompt model_name [] =
     \<lparr>model = model_name,
      messages = [\<lparr>role = JStr ''user'', content = JStr prompt\<rparr>],
      max_tokens = JInt 1000, temperature = JFloat 0.7, top_p = JFloat 1,
      presence_penalty = JFloat 0, frequency_penalty = JFloat 0,
      stream = JBool False, return_citations = JBool True,
      return_related_questions = JBool True, return_images = JBool False\<rparr> \<and>
   model (chat_request prompt model_name kwargs) = model_name \<and>
   messages (chat_request prompt model_name kwargs) =
     [\<lparr>role = JStr ''user'', content = JStr prompt\<rparr>] \<and>
   stream (chat_request prompt model_name kwargs) = JBool False \<and>
   (\<forall>v. map_of kwargs ''max_tokens'' = Some v \<longrightarrow>
        max_tokens (chat_request prompt model_name kwargs) = v) \<and>
   (\<forall>v. map_of kwargs ''temperature'' = Some v \<longrightarrow>
        temperature (chat_request prompt model_name kwargs) = v) \<and>
   (\<forall>v. map_of kwargs ''top_p'' = Some v \<longrightarrow>
        top_p (chat_request prompt model_name kwargs) = v) \<and>
   (\<forall>v. map_of kwargs ''presence_penalty'' = Some v \<longrightarrow>
        presence_penalty (chat_request prompt model_name kwargs) = v) \<and>
   (\<forall>v. map_of kwargs ''frequency_penalty'' = Some v \<longrightarrow>
        frequency_penalty (chat_request prompt model_name kwargs) = v) \<and>
   (\<forall>v. map_of kwargs ''return_citations'' = Some v \<longrightarrow>
        return_citations (chat_request prompt model_name kwargs) = v) \<and>
   (\<forall>v. map_of kwargs ''return_related_questions'' = Some v \<longrightarrow>
        return_related_questions (chat_request prompt model_name kwargs) = v) \<and>
   (\<forall>v. map_of kwargs ''return_images'' = Some v \<longrightarrow>
        return_images (chat_request prompt model_name kwargs) = v) \<and>
   (map_of kwargs ''max_tokens'' = None \<longrightarrow>
        max_tokens (chat_request prompt model_name kwargs) = JInt 1000) \<and>
   (map_of kwargs ''temperature'' = None \<longrightarrow>
        temperature (chat_request prompt model_name kwargs) = JFloat 0.7) \<and>
   (map_of kwargs ''top_p'' = None \<longrightarrow>
        top_p (chat_request prompt model_name kwargs) = JFloat 1) \<and>
   (map_of kwargs ''presence_penalty'' = None \<longrightarrow>
        presence_penalty (chat_request prompt model_name kwargs) = JFloat 0) \<and>
   (map_of kwargs ''frequency_penalty'' = None \<longrightarrow>
        frequency_penalty (chat_request prompt model_name kwargs) = JFloat 0) \<and>
   (map_of kwargs ''return_citations'' = None \<longrightarrow>
        return_citations (chat_request prompt model_name kwargs) = JBool True) \<and>
   (map_of kwargs ''return_related_questions'' = None \<longrightarrow>
        return_related_questions (chat_request prompt model_name kwargs) = JBool True) \<and>
   (map_of kwargs ''return_images'' = None \<longrightarrow>
        return_images (chat_request prompt model_name kwargs) = JBool False)"
  unfolding chat_request_options
  by (simp add: send_chat_request_def chat_request_defaults chat_request_fixed)

text \<open>
  The probe of \<^verbatim>\<open>test_connection\<close> supplies \<open>max_tokens=50\<close> and nothing else: the
  request has 50 tokens and the default temperature.
\<close>

theorem send_chat_request_defaults_witness:
  "map_of [(''max_tokens'', JInt 50)] ''max_tokens'' = Some (JInt 50) \<and>
   map_of [(''max_tokens'', JInt 50)] ''temperature'' = None \<and>
   max_tokens (chat_request ''Hello'' ''sonar-pro'' [(''max_tokens'', JInt 50)]) = JInt 50 \<and>
   temperature (chat_request ''Hello'' ''sonar-pro'' [(''max_tokens'', JInt 50)]) = JFloat 0.7"
proof -
  have supplied: "map_of [(''max_tokens'', JInt 50)] ''max_tokens'' = Some (JInt 50)"
    by simp
  have missing: "map_of [(''max_tokens'', JInt 50)] ''temperature'' = None"
    by simp
  show ?thesis
    using supplied missing
      send_chat_request_defaults[of "\<lambda>payload. Timeout" "''Hello''" "''sonar-pro''"
        "[(''max_tokens'', JInt 50)]"]
    by simp
qed

subsection \<open>\_parse\_response\<close>

lemma and_then_Inr: "and_then m f = Inr y \<longleftrightarrow> (\<exists>x. m = Inr x \<and> f x = Inr y)"
  by (cases m) auto

lemma parse_usage_delete:
  "k \<noteq> ''usage'' \<Longrightarrow> parse_usage (JObj (AList.delete k kvs)) = parse_usage (JObj kvs)"
  by (simp add: parse_usage_def delete_conv)

lemma parse_usage_missing:
  "map_of kvs ''usage'' = None \<Longrightarrow>
   parse_usage (JObj kvs) =
     Inr \<lparr>prompt_tokens = JInt 0, completion_tokens = JInt 0, total_tokens = JInt 0\<rparr>"
  by (simp add: parse_usage_def)

lemma parse_without_search_results:
  assumes "parse_response (JObj kvs) = Inr r"
  shows "parse_response (JObj (AList.delete ''search_results'' kvs)) =
           Inr (r\<lparr>search_results := None\<rparr>)"
  using assms by (auto simp: and_then_Inr delete_conv parse_usage_delete)

lemma parse_without_related_questions:
  assumes "parse_response (JObj kvs) = Inr r"
  shows "parse_response (JObj (AList.delete ''related_questions'' kvs)) =
           Inr (r\<lparr>related_questions := JNull\<rparr>)"
  using assms by (auto simp: and_then_Inr delete_conv parse_usage_delete)

lemma parse_without_citations:
  assumes "parse_response (JObj kvs) = Inr r"
  shows "parse_response (JObj (AList.delete ''citations'' kvs)) = Inr (r\<lparr>citations := JNull\<rparr>)"
  using assms by (auto simp: and_then_Inr delete_conv parse_usage_delete)

lemma parse_without_id:
  assumes "parse_response (JObj kvs) = Inr r"
  shows "parse_response (JObj (AList.delete ''id'' kvs)) = Inr (r\<lparr>resp_id := JStr []\<rparr>)"
  using assms by (auto simp: and_then_Inr delete_conv parse_usage_delete)

lemma parse_without_choices:
  assumes "parse_response (JObj kvs) = Inr r"
  shows "parse_response (JObj (AList.delete ''choices'' kvs)) = Inr (r\<lparr>choices := []\<rparr>)"
  using assms by (auto simp: and_then_Inr delete_conv parse_usage_delete)

lemma parse_without_usage:
  assumes "parse_response (JObj kvs) = Inr r"
  shows "parse_response (JObj (AList.delete ''usage'' kvs)) =
     Inr (r\<lparr>usage := \<lparr>prompt_tokens = JInt 0, completion_tokens = JInt 0,
                       total_tokens = JInt 0\<rparr>\<rparr>)"
  using assms by (auto simp: and_then_Inr delete_conv parse_usage_missing)

text \<open>
  C3, as stated, fails in its second half: a payload with \<open>id\<close> and \<open>choices\<close> and no
  \<open>usage\<close> is parsed without an exception, into a response whose usage has three zero
  counts, because \<^verbatim>\<open>response_data.get('usage', {})\<close> and the three
  \<^verbatim>\<open>usage_data.get(..., 0)\<close> supply defaults.
\<close>

theorem parse_response_missing_usage_succeeds:
  "map_of [(''id'', JStr ''r-1''), (''choices'', JArr [])] ''usage'' = None \<and>
   parse_response (JObj [(''id'', JStr ''r-1''), (''choices'', JArr [])]) =
     Inr \<lparr>resp_id = JStr ''r-1'', resp_object = JStr [], resp_created = JInt 0,
          resp_model = JStr [], choices = [],
          usage = \<lparr>prompt_tokens = JInt 0, completion_tokens = JInt 0,
                    total_tokens = JInt 0\<rparr>,
          search_results = None, related_questions = JNull, citations = JNull\<rparr>"
  by (simp add: parse_usage_def)

text \<open>
  C3, amended. No top-level field is required: the empty payload is parsed, into a
  response made of defaults. Take any payload that \<^verbatim>\<open>_parse_response\<close> parses, and
  remove one top-level field from it: the payload
  without the field is parsed too, into the same response except for that field, which
  is absent (\<^verbatim>\<open>None\<close>) for \<open>search_results\<close>, \<open>related_questions\<close> and \<open>citations\<close>,
  and a default for the others: three zero token counts for \<open>usage\<close>, the empty list
  for \<open>choices\<close>, the empty string for \<open>id\<close>. In particular a payload that lacks one of
  the six fields and is parsed has that value in the field.
\<close>

theorem parse_response_missing_fields:
  "parse_response (JObj []) =
     Inr \<lparr>resp_id = JStr [], resp_object = JStr [], resp_created = JInt 0,
          resp_model = JStr [], choices = [],
          usage = \<lparr>prompt_tokens = JInt 0, completion_tokens = JInt 0,
                    total_tokens = JInt 0\<rparr>,
          search_results = None, related_questions = JNull, citations = JNull\<rparr> \<and>
   (parse_response (JObj kvs) = Inr r \<longrightarrow>
      parse_response (JObj (AList.delete ''search_results'' kvs)) =
        Inr (r\<lparr>search_results := None\<rparr>) \<and>
      parse_response (JObj (AList.delete ''related_questions'' kvs)) =
        Inr (r\<lparr>related_questions := JNull\<rparr>) \<and>
      parse_response (JObj (AList.delete ''citations'' kvs)) =
        Inr (r\<lparr>citations := JNull\<rparr>) \<and>
      parse_response (JObj (AList.delete ''usage'' kvs)) =
        Inr (r\<lparr>usage := \<lparr>prompt_tokens = JInt 0, completion_tokens = JInt 0,
                          total_tokens = JInt 0\<rparr>\<rparr>) \<and>
      parse_response (JObj (AList.delete ''choices'' kvs)) = Inr (r\<lparr>choices := []\<rparr>) \<and>
      parse_response (JObj (AList.delete ''id'' kvs)) = Inr (r\<lparr>resp_id := JStr []\<rparr>) \<and>
      (map_of kvs ''search_results'' = None \<longrightarrow> search_results r = None) \<and>
      (map_of kvs ''related_questions'' = None \<longrightarrow> related_questions r = JNull) \<and>
      (map_of kvs ''citations'' = None \<longrightarrow> citations r = JNull) \<and>
      (map_of kvs ''usage'' = None \<longrightarrow>
         usage r = \<lparr>prompt_tokens = JInt 0, completion_tokens = JInt 0,
                    total_tokens = JInt 0\<rparr>) \<and>
      (map_of kvs ''choices'' = None \<longrightarrow> choices r = []) \<and>
      (map_of kvs ''id'' = None \<longrightarrow> resp_id r = JStr []))"
proof (intro conjI impI)
  show "parse_response (JObj []) =
     Inr \<lparr>resp_id = JStr [], resp_object = JStr [], resp_created = JInt 0,
          resp_model = JStr [], choices = [],
          usage = \<lparr>prompt_tokens = JInt 0, completion_tokens = JInt 0,
                    total_tokens = JInt 0\<rparr>,
          search_results = None, related_questions = JNull, citations = JNull\<rparr>"
    by (simp add: parse_usage_def)
next
  assume parsed: "parse_response (JObj kvs) = Inr r"
  show "parse_response (JObj (AList.delete ''search_results'' kvs)) =
          Inr (r\<lparr>search_results := None\<rparr>)"
    by (rule parse_without_search_results[OF parsed])
  show "parse_response (JObj (AList.delete ''related_questions'' kvs)) =
          Inr (r\<lparr>related_questions := JNull\<rparr>)"
    by (rule parse_without_related_questions[OF parsed])
  show "parse_response (JObj (AList.delete ''citations'' kvs)) = Inr (r\<lparr>citations := JNull\<rparr>)"
    by (rule parse_without_citations[OF parsed])
  show "parse_response (JObj (AList.delete ''usage'' kvs)) =
          Inr (r\<lparr>usage := \<lparr>prompt_tokens = JInt 0, completion_tokens = JInt 0,
                            total_tokens = JInt 0\<rparr>\<rparr>)"
    by (rule parse_without_usage[OF parsed])
  show "parse_response (JObj (AList.delete ''choices'' kvs)) = Inr (r\<lparr>choices := []\<rparr>)"
    by (rule parse_without_choices[OF parsed])
  show "parse_response (JObj (AList.delete ''id'' kvs)) = Inr (r\<lparr>resp_id := JStr []\<rparr>)"
    by (rule parse_without_id[OF parsed])
  show "search_results r = None" if "map_of kvs ''search_results'' = None"
    using parsed that by (auto simp: and_then_Inr)
  show "related_questions r = JNull" if "map_of kvs ''related_questions'' = None"
    using parsed that by (auto simp: and_then_Inr)
  show "citations r = JNull" if "map_of kvs ''citations'' = None"
    using parsed that by (auto simp: and_then_Inr)
  show "usage r = \<lparr>prompt_tokens = JInt 0, completion_tokens = JInt 0, total_tokens = JInt 0\<rparr>"
    if "map_of kvs ''usage'' = None"
    using parsed that by (auto simp: and_then_Inr parse_usage_missing)
  show "choices r = []" if "map_of kvs ''choices'' = None"
    using parsed that by (auto simp: and_then_Inr)
  show "resp_id r = JStr []" if "map_of kvs ''id'' = None"
    using parsed that by (auto simp: and_then_Inr)
qed

text \<open>
  The example payload is parsed into the example response, which has a usage and no
  related questions; without its \<open>usage\<close> it is parsed into the same response with
  zero token counts.
\<close>

theorem parse_response_missing_fields_witness:
  "parse_response (JObj example_payload) = Inr example_response \<and>
   map_of example_payload ''related_questions'' = None \<and>
   related_questions example_response = JNull \<and>
   parse_response (JObj (AList.delete ''usage'' example_payload)) =
     Inr (example_response\<lparr>usage := \<lparr>prompt_tokens = JInt 0, completion_tokens = JInt 0,
                                      total_tokens = JInt 0\<rparr>\<rparr>)"
proof -
  have parsed: "parse_response (JObj example_payload) = Inr example_response"
    by (simp add: example_payload_def example_response_def parse_usage_def parse_choice_def
        parse_search_result_def)
  have lacks: "map_of example_payload ''related_questions'' = None"
    by (simp add: example_payload_def)
  show ?thesis
    using parsed lacks parse_response_missing_fields[of example_payload example_response]
    by simp
qed

section \<open>Properties of the audit store\<close>

subsection \<open>Collection files\<close>

text \<open>
  Reading a file after writing it returns what \<^verbatim>\<open>json.load\<close> makes of the text that
  \<^verbatim>\<open>json.dump\<close> wrote, or the fallback of \<^verbatim>\<open>_load_json\<close> when \<^verbatim>\<open>json.load\<close> raises
  on that text; the other files read as before.
\<close>

lemma load_json_after_save_json:
  "load_json json_load (save_json json_dump fs file_path data) file_path =
     (case json_load (json_dump data) of
        None \<Rightarrow> (if file_path \<noteq> config_file then JArr [] else JObj [])
      | Some v \<Rightarrow> v)"
  by (simp add: load_json_def save_json_def)

lemma load_json_other_file:
  "other \<noteq> file_path \<Longrightarrow>
   load_json json_load (save_json json_dump fs file_path data) other =
     load_json json_load fs other"
  by (simp add: load_json_def save_json_def)

subsection \<open>Operations on an id that is not in the collection\<close>

lemma update_response_absent:
  "request_id \<notin> log_id ` set requests \<Longrightarrow>
   update_response request_id response response_json_v duration requests = requests"
  by (induction requests) auto

lemma update_error_absent:
  "request_id \<notin> log_id ` set requests \<Longrightarrow>
   update_error request_id error_message_v duration requests = requests"
  by (induction requests) auto

lemma update_prompt_usage_absent:
  "pid \<notin> prompt_id ` set prompts \<Longrightarrow> update_prompt_usage now pid prompts = prompts"
  by (induction prompts) auto

lemma delete_prompt_absent:
  "pid \<notin> prompt_id ` set prompts \<Longrightarrow> delete_prompt pid prompts = prompts"
  by (induction prompts) (auto simp: delete_prompt_def)

text \<open>
  C4. With an id that no entry of the request log has, \<^verbatim>\<open>update_response\<close> and
  \<^verbatim>\<open>update_error\<close> return the log as it was; with an id that no saved prompt has,
  \<^verbatim>\<open>update_prompt_usage\<close> and \<^verbatim>\<open>delete_prompt\<close> return the prompts as they were.
  None of the four has a failing branch: each returns a collection for every argument.
\<close>

theorem missing_id_noop:
  "(request_id \<notin> log_id ` set requests \<longrightarrow>
      update_response request_id response response_json_v duration requests = requests \<and>
      update_error request_id error_message_v duration requests = requests) \<and>
   (pid \<notin> prompt_id ` set prompts \<longrightarrow>
      update_prompt_usage now pid prompts = prompts \<and>
      delete_prompt pid prompts = prompts)"
  by (simp add: update_response_absent update_error_absent update_prompt_usage_absent
      delete_prompt_absent)

text \<open>The id \<open>z\<close> is neither in the example log nor among two saved prompts.\<close>

theorem missing_id_noop_witness:
  "update_response ''z'' example_response ''{}'' 5 example_log = example_log \<and>
   update_error ''z'' ''boom'' 5 example_log = example_log \<and>
   update_prompt_usage 7 ''z'' [example_prompt ''p'', example_prompt ''q''] =
     [example_prompt ''p'', example_prompt ''q''] \<and>
   delete_prompt ''z'' [example_prompt ''p'', example_prompt ''q''] =
     [example_prompt ''p'', example_prompt ''q'']"
proof -
  have log: "''z'' \<notin> log_id ` set example_log"
    by (simp add: example_log_def example_entry_def)
  have prompts: "''z'' \<notin> prompt_id ` set [example_prompt ''p'', example_prompt ''q'']"
    by (simp add: example_prompt_def)
  show ?thesis
    using log prompts
      missing_id_noop[of "''z''" example_log example_response "''{}''" 5 "''boom''" "''z''"
        "[example_prompt ''p'', example_prompt ''q'']" 7]
    by blast
qed

subsection \<open>Logging a request and finding it\<close>

lemma get_request_by_id_append:
  "request_id \<notin> log_id ` set requests \<Longrightarrow> log_id e = request_id \<Longrightarrow>
   get_request_by_id request_id (requests @ [e]) = Some e"
  by (induction requests) auto

text \<open>
  C5. \<^verbatim>\<open>log_request\<close> returns the id it drew. When the request has at least one
  message and the id is new to the log, as a fresh UUID is, \<^verbatim>\<open>get_request_by_id\<close>
  with that id on the log just written returns an entry with status \<open>sent\<close>, the
  model of the request and the content of its first message as prompt.
\<close>

theorem log_then_resolve:
  assumes "messages request \<noteq> []" and "request_id \<notin> log_id ` set requests"
  shows "\<exists>entry.
     fst (log_request now request_id request request_json_v requests) = request_id \<and>
     get_request_by_id (fst (log_request now request_id request request_json_v requests))
       (snd (log_request now request_id request request_json_v requests)) = Some entry \<and>
     status entry = ''sent'' \<and>
     log_model entry = model request \<and>
     log_prompt entry = content (hd (messages request))"
  using assms
  by (cases "messages request") (simp_all add: log_request_def get_request_by_id_append)

text \<open>The example request, logged under the new id \<open>e\<close> after the four example entries.\<close>

theorem log_then_resolve_witness:
  "map_option (\<lambda>entry. (status entry, log_model entry, log_prompt entry))
     (get_request_by_id (fst (log_request example_now ''e'' example_request ''{}'' example_log))
        (snd (log_request example_now ''e'' example_request ''{}'' example_log))) =
   Some (''sent'', ''sonar'', JStr ''hi'')"
proof -
  have msgs: "messages example_request \<noteq> []"
    by (simp add: example_request_def)
  have fresh: "''e'' \<notin> log_id ` set example_log"
    by (simp add: example_log_def example_entry_def)
  from log_then_resolve[OF msgs fresh, of example_now "''{}''"]
  show ?thesis
    by (auto simp: example_request_def)
qed

subsection \<open>Prompt usage\<close>

lemma prompt_by_id_update:
  "prompt_by_id pid (update_prompt_usage t pid prompts) =
     map_option (\<lambda>p. p\<lparr>last_used := Some t, usage_count := usage_count p + 1\<rparr>)
       (prompt_by_id pid prompts)"
  by (induction prompts) auto

lemma prompt_by_id_update_other:
  "other \<noteq> pid \<Longrightarrow>
   prompt_by_id other (update_prompt_usage t pid prompts) = prompt_by_id other prompts"
  by (induction prompts) auto

lemma prompt_by_id_append:
  "pid \<notin> prompt_id ` set prompts \<Longrightarrow> prompt_id p = pid \<Longrightarrow>
   prompt_by_id pid (prompts @ [p]) = Some p"
  by (induction prompts) auto

lemma save_then_use_three_times:
  assumes "new_id \<notin> prompt_id ` set prompts"
  shows "prompt_by_id new_id (snd (save_prompt t0 new_id n c d cat prompts)) =
           Some \<lparr>prompt_id = new_id, prompt_name = n, prompt_description = d,
                 prompt_content = c, prompt_category = cat, created_at = t0,
                 last_used = None, usage_count = 0\<rparr> \<and>
         prompt_by_id new_id
           (update_prompt_usage t3 new_id (update_prompt_usage t2 new_id
              (update_prompt_usage t1 new_id (snd (save_prompt t0 new_id n c d cat prompts))))) =
           Some \<lparr>prompt_id = new_id, prompt_name = n, prompt_description = d,
                 prompt_content = c, prompt_category = cat, created_at = t0,
                 last_used = Some t3, usage_count = 3\<rparr>"
  using assms by (simp add: prompt_by_id_update save_prompt_def prompt_by_id_append)

text \<open>
  C8. One call of \<^verbatim>\<open>update_prompt_usage\<close> at instant \<open>t\<close> turns the prompt found under
  the id into the same prompt with \<open>usage_count\<close> one higher and \<open>last_used = t\<close>, and
  leaves the prompt found under any other id as it was. \<^verbatim>\<open>save_prompt\<close> returns the
  id it drew; when that id is new to the collection, as a fresh UUID is, the prompt
  stored under it has \<open>usage_count = 0\<close> and no \<open>last_used\<close>, and after three calls at
  the instants \<open>t1\<close>, \<open>t2\<close>, \<open>t3\<close> it has \<open>usage_count = 3\<close> and \<open>last_used = t3\<close>.
\<close>

theorem prompt_usage_increments:
  "prompt_by_id pid (update_prompt_usage t pid prompts) =
     map_option (\<lambda>p. p\<lparr>last_used := Some t, usage_count := usage_count p + 1\<rparr>)
       (prompt_by_id pid prompts) \<and>
   (other \<noteq> pid \<longrightarrow>
      prompt_by_id other (update_prompt_usage t pid prompts) = prompt_by_id other prompts) \<and>
   fst (save_prompt t0 new_id n c d cat prompts) = new_id \<and>
   (new_id \<notin> prompt_id ` set prompts \<longrightarrow>
      prompt_by_id new_id (snd (save_prompt t0 new_id n c d cat prompts)) =
        Some \<lparr>prompt_id = new_id, prompt_name = n, prompt_description = d,
              prompt_content = c, prompt_category = cat, created_at = t0,
              last_used = None, usage_count = 0\<rparr> \<and>
      prompt_by_id new_id
        (update_prompt_usage t3 new_id (update_prompt_usage t2 new_id
           (update_prompt_usage t1 new_id (snd (save_prompt t0 new_id n c d cat prompts))))) =
        Some \<lparr>prompt_id = new_id, prompt_name = n, prompt_description = d,
              prompt_content = c, prompt_category = cat, created_at = t0,
              last_used = Some t3, usage_count = 3\<rparr>)"
proof -
  have "fst (save_prompt t0 new_id n c d cat prompts) = new_id"
    by (simp add: save_prompt_def)
  then show ?thesis
    using prompt_by_id_update[of pid t prompts] prompt_by_id_update_other[of other pid t prompts]
      save_then_use_three_times[of new_id prompts t0 n c d cat t3 t2 t1]
    by simp
qed

text \<open>
  A prompt saved at instant 10 under the new id \<open>r\<close>, beside two saved prompts, and
  used at the instants 20, 30 and 40.
\<close>

theorem prompt_usage_increments_witness:
  "map_option (\<lambda>p. (usage_count p, last_used p))
     (prompt_by_id ''r''
        (update_prompt_usage 40 ''r'' (update_prompt_usage 30 ''r''
           (update_prompt_usage 20 ''r''
              (snd (save_prompt 10 ''r'' ''mine'' ''text'' [] ''Custom''
                      [example_prompt ''p'', example_prompt ''q''])))))) =
   Some (3, Some 40)"
proof -
  have fresh: "''r'' \<notin> prompt_id ` set [example_prompt ''p'', example_prompt ''q'']"
    by (simp add: example_prompt_def)
  show ?thesis
    using fresh
      prompt_usage_increments[where new_id = "''r''" and t0 = 10 and n = "''mine''"
        and c = "''text''" and d = "[]" and cat = "''Custom''"
        and prompts = "[example_prompt ''p'', example_prompt ''q'']"
        and ?t1.0 = 20 and ?t2.0 = 30 and ?t3.0 = 40 and pid = "''r''" and t = 20
        and other = "''p''"]
    by simp
qed

subsection \<open>Float arithmetic\<close>

text \<open>Rounding to an integer: off by a half at most, and exact on integers.\<close>

lemma round_half_even_error: "\<bar>of_int (round_half_even r) - r\<bar> \<le> 1 / 2"
  unfolding round_half_even_def Let_def by (auto; linarith)

lemma round_half_even_ge: "of_int n \<le> r \<Longrightarrow> n \<le> round_half_even r"
  unfolding round_half_even_def Let_def by (auto simp: le_floor_iff; linarith)

lemma round_half_even_int: "r \<in> \<int> \<Longrightarrow> of_int (round_half_even r) = r"
  unfolding round_half_even_def Let_def by (auto elim!: Ints_cases)

lemma ulp_exponent_bounds: "e0 \<le> ulp_exponent F e0 a \<and> ulp_exponent F e0 a \<le> e0 + int F"
  by (induction F e0 a rule: ulp_exponent.induct) auto

lemma ulp_exponent_lower: "ulp_exponent F e0 a = e0 \<or> 2 powi (ulp_exponent F e0 a + 52) \<le> a"
proof (induction F e0 a rule: ulp_exponent.induct)
  case (1 e a)
  then show ?case by simp
next
  case (2 fuel e a)
  show ?case
  proof (cases "a < 2 powi (e + 53)")
    case True
    then show ?thesis by simp
  next
    case False
    then have ge: "2 powi (e + 53) \<le> a" by simp
    from 2[OF False] consider "ulp_exponent fuel (e + 1) a = e + 1"
      | "2 powi (ulp_exponent fuel (e + 1) a + 52) \<le> a" by blast
    then show ?thesis
    proof cases
      case 1
      then show ?thesis using False ge by (simp add: add.commute add.left_commute)
    next
      case 2
      then show ?thesis using False by simp
    qed
  qed
qed

lemma ulp_exponent_upper:
  "a < 2 powi (e0 + int F + 53) \<Longrightarrow> a < 2 powi (ulp_exponent F e0 a + 53)"
  by (induction F e0 a rule: ulp_exponent.induct) (auto simp: algebra_simps)

lemma ulp_exponent_eq:
  assumes "2 powi (k + 52) \<le> a" "a < 2 powi (k + 53)" "e0 \<le> k" "k \<le> e0 + int F"
  shows "ulp_exponent F e0 a = k"
proof -
  let ?e = "ulp_exponent F e0 a"
  have "2 powi (k + 53) \<le> (2::real) powi (e0 + int F + 53)"
    using assms(4) by (intro power_int_increasing) auto
  with assms(2) have "a < 2 powi (e0 + int F + 53)" by simp
  then have up: "a < 2 powi (?e + 53)" by (rule ulp_exponent_upper)
  have "\<not> ?e < k"
  proof
    assume "?e < k"
    then have "(2::real) powi (?e + 53) \<le> 2 powi (k + 52)"
      by (intro power_int_increasing) auto
    with up assms(1) show False by simp
  qed
  moreover have "\<not> k < ?e"
  proof
    assume lt: "k < ?e"
    then have "?e \<noteq> e0" using assms(3) by simp
    with ulp_exponent_lower[of F e0 a] have "2 powi (?e + 52) \<le> a" by simp
    moreover have "(2::real) powi (k + 53) \<le> 2 powi (?e + 52)"
      using lt by (intro power_int_increasing) auto
    ultimately show False using assms(2) by simp
  qed
  ultimately show ?thesis by simp
qed

lemma ulp_exponent_subnormal:
  assumes "a < 2 powi (- 1021)"
  shows "ulp_exponent (Suc F) (- 1074) a = - 1074"
  using assms by simp


lemma nearest_double_abs:
  assumes "x \<noteq> 0"
  shows "\<bar>nearest_double x\<bar> =
     of_int (round_half_even (\<bar>x\<bar> / 2 powi (ulp_exponent 2045 (- 1074) \<bar>x\<bar>)))
       * 2 powi (ulp_exponent 2045 (- 1074) \<bar>x\<bar>)"
proof -
  let ?q = "(2::real) powi (ulp_exponent 2045 (- 1074) \<bar>x\<bar>)"
  have q: "0 < ?q" by simp
  have "of_int 0 \<le> \<bar>x\<bar> / ?q" using q by simp
  then have "0 \<le> round_half_even (\<bar>x\<bar> / ?q)" by (rule round_half_even_ge)
  then show ?thesis
    using assms q by (simp add: nearest_double_def Let_def abs_mult abs_sgn_eq)
qed

lemma ulp_le_max:
  "2 powi (ulp_exponent 2045 (- 1074) a) \<le> max 1 (a::real)"
proof -
  let ?e = "ulp_exponent 2045 (- 1074) a"
  consider "?e = - 1074" | "2 powi (?e + 52) \<le> a"
    using ulp_exponent_lower[of 2045 "- 1074" a] by blast
  then show ?thesis
  proof cases
    case 1
    have "(2::real) powi (- 1074) \<le> 2 powi 0"
      by (intro power_int_increasing) auto
    then show ?thesis using 1 by simp
  next
    case 2
    have "(2::real) powi ?e \<le> 2 powi (?e + 52)"
      by (intro power_int_increasing) auto
    with 2 show ?thesis by simp
  qed
qed

lemma nearest_double_error:
  "\<bar>nearest_double x - x\<bar> \<le> 2 powi (ulp_exponent 2045 (- 1074) \<bar>x\<bar>) / 2"
proof (cases "x = 0")
  case True
  then show ?thesis by (simp add: nearest_double_def)
next
  case False
  let ?q = "(2::real) powi (ulp_exponent 2045 (- 1074) \<bar>x\<bar>)"
  let ?m = "round_half_even (\<bar>x\<bar> / ?q)"
  have q: "0 < ?q" by simp
  have "of_int ?m * ?q - \<bar>x\<bar> = (of_int ?m - \<bar>x\<bar> / ?q) * ?q"
    using q by (simp add: left_diff_distrib)
  then have "\<bar>of_int ?m * ?q - \<bar>x\<bar>\<bar> = \<bar>of_int ?m - \<bar>x\<bar> / ?q\<bar> * ?q"
    using q by (simp only: abs_mult abs_of_pos)
  also have "\<dots> \<le> 1 / 2 * ?q"
    using q round_half_even_error[of "\<bar>x\<bar> / ?q"] by (intro mult_right_mono) auto
  finally have bound: "\<bar>of_int ?m * ?q - \<bar>x\<bar>\<bar> \<le> ?q / 2" by simp
  have "nearest_double x - x = sgn x * (of_int ?m * ?q - \<bar>x\<bar>)"
    using False by (simp add: nearest_double_def Let_def right_diff_distrib sgn_mult_abs mult.assoc)
  then have "\<bar>nearest_double x - x\<bar> = \<bar>of_int ?m * ?q - \<bar>x\<bar>\<bar>"
    using False by (simp only: abs_mult abs_sgn_eq) simp
  with bound show ?thesis by simp
qed

lemma nearest_double_bound: "\<bar>nearest_double x\<bar> \<le> 3 / 2 * \<bar>x\<bar> + 1 / 2"
proof -
  have "\<bar>nearest_double x\<bar> \<le> \<bar>x\<bar> + \<bar>nearest_double x - x\<bar>" by simp
  also have "\<dots> \<le> \<bar>x\<bar> + max 1 \<bar>x\<bar> / 2"
    using nearest_double_error[of x] ulp_le_max[of "\<bar>x\<bar>"] by simp
  also have "\<dots> \<le> 3 / 2 * \<bar>x\<bar> + 1 / 2" by (simp add: max_def)
  finally show ?thesis .
qed

lemma nearest_double_finite: "\<bar>x\<bar> < 2 ^ 1023 \<Longrightarrow> \<bar>nearest_double x\<bar> < 2 ^ 1024"
  using nearest_double_bound[of x] by simp

lemma nearest_double_overflow:
  assumes "2 ^ 1024 \<le> \<bar>x\<bar>"
  shows "2 ^ 1024 \<le> \<bar>nearest_double x\<bar>"
proof -
  let ?e = "ulp_exponent 2045 (- 1074) \<bar>x\<bar>"
  let ?q = "(2::real) powi ?e"
  let ?m = "round_half_even (\<bar>x\<bar> / ?q)"
  have big: "(2::real) powi 1024 \<le> \<bar>x\<bar>" using assms by (simp only: power_int_numeral)
  have x0: "x \<noteq> 0" using assms by auto
  have e: "?e \<le> 971" using ulp_exponent_bounds[of "- 1074" 2045 "\<bar>x\<bar>"] by simp
  have q: "0 < ?q" by simp
  have "(2::real) \<noteq> 0 \<or> (1024 - ?e) + ?e \<noteq> 0" by simp
  from power_int_add[OF this]
  have split: "(2::real) powi 1024 = 2 powi (1024 - ?e) * ?q"
    by (simp only: diff_add_cancel)
  have nn: "0 \<le> 1024 - ?e" using e by simp
  have as_int: "(2::real) powi (1024 - ?e) = of_int (2 ^ nat (1024 - ?e))"
    using nn by (simp add: power_int_def)
  have "2 powi (1024 - ?e) * ?q \<le> \<bar>x\<bar>" using big split by simp
  then have "2 powi (1024 - ?e) \<le> \<bar>x\<bar> / ?q"
    using q by (simp add: pos_le_divide_eq)
  then have "2 ^ nat (1024 - ?e) \<le> ?m"
    unfolding as_int by (rule round_half_even_ge)
  then have "of_int (2 ^ nat (1024 - ?e)) \<le> (of_int ?m :: real)"
    by (simp only: of_int_le_iff)
  then have "2 powi (1024 - ?e) * ?q \<le> of_int ?m * ?q"
    unfolding as_int using q by (intro mult_right_mono) auto
  then have "(2::real) powi 1024 \<le> \<bar>nearest_double x\<bar>"
    unfolding nearest_double_abs[OF x0] split[symmetric] .
  then show ?thesis by (simp only: power_int_numeral)
qed

lemma nearest_double_normal:
  assumes "2 powi (k + 52) \<le> \<bar>x\<bar>" "\<bar>x\<bar> < 2 powi (k + 53)" "- 1074 \<le> k" "k \<le> 971"
  shows "nearest_double x = sgn x * of_int (round_half_even (\<bar>x\<bar> / 2 powi k)) * 2 powi k"
proof -
  have "0 < \<bar>x\<bar>" using assms(1) by (smt (verit) zero_less_power_int)
  then have "x \<noteq> 0" by auto
  moreover have "ulp_exponent 2045 (- 1074) \<bar>x\<bar> = k"
    using assms by (intro ulp_exponent_eq) auto
  ultimately show ?thesis by (simp add: nearest_double_def Let_def)
qed

lemma nearest_double_exact:
  assumes "2 powi (k + 52) \<le> \<bar>x\<bar>" "\<bar>x\<bar> < 2 powi (k + 53)" "- 1074 \<le> k" "k \<le> 971"
    and "\<bar>x\<bar> / 2 powi k \<in> \<int>"
  shows "nearest_double x = x"
  using nearest_double_normal[OF assms(1-4)] round_half_even_int[OF assms(5)] by (simp add: mult.assoc sgn_mult_abs)


text \<open>
  The example of a quotient that a float does not hold exactly: 7 completed requests of
  100 give the success rate 7.000000000000001, one unit in the last place above 7.
\<close>

lemma nearest_double_7_of_100:
  "nearest_double (7 / 100) = 5044031582654956 / 2 ^ 56"
  by (subst nearest_double_normal[where k = "-56"])
     (simp_all add: power_int_minus round_half_even_def)

lemma success_rate_7_of_100:
  "nearest_double (nearest_double (7 / 100) * 100) = 7 + 1 / 2 ^ 50"
  unfolding nearest_double_7_of_100
  by (subst nearest_double_normal[where k = "-50"])
     (simp_all add: power_int_minus round_half_even_def)

subsection \<open>Usage statistics\<close>

lemma nearest_double_100:
  "nearest_double 100 = 100"
  by (rule nearest_double_exact[where k = "-46"]) (simp_all add: power_int_minus)

lemma int_to_float_100: "int_to_float 100 = Inr (Finite 100)"
  by (simp add: int_to_float_def nearest_double_100)

lemma rate_value:
  assumes "0 \<le> c" "c \<le> n" "0 < n"
  shows "and_then (number_truediv (PyInt c) (PyInt n)) (\<lambda>q. number_mul q (PyInt 100)) =
           Inr (PyFloat (Finite (nearest_double (nearest_double (of_int c / of_int n) * 100))))"
proof -
  let ?f = "nearest_double (of_int c / of_int n)"
  have ratio: "\<bar>real_of_int c / real_of_int n\<bar> \<le> 1"
    using assms by simp
  then have f2: "\<bar>?f\<bar> \<le> 2"
    using nearest_double_bound[of "real_of_int c / real_of_int n"] by simp
  then have "\<bar>?f\<bar> < 2 ^ 1024"
    by (rule le_less_trans) simp
  then have div: "int_truediv c n = Inr (Finite ?f)"
    using assms by (simp add: int_truediv_def Let_def)
  have "\<bar>?f * 100\<bar> \<le> 200" using f2 by (simp add: abs_mult)
  then have "\<bar>?f * 100\<bar> < 2 ^ 1023" by (rule le_less_trans) simp
  then have "\<bar>nearest_double (?f * 100)\<bar> < 2 ^ 1024" by (rule nearest_double_finite)
  then have mul: "round_double (?f * 100) = Finite (nearest_double (?f * 100))"
    by (simp add: round_double_def Let_def)
  show ?thesis
    by (simp add: div int_to_float_100 mul)
qed

lemma average_value:
  assumes "c \<noteq> 0"
  shows "number_truediv (PyInt t) (PyInt c) =
           (if 2 ^ 1024 \<le> \<bar>nearest_double (of_int t / of_int c)\<bar> then Inl OverflowError
            else Inr (PyFloat (Finite (nearest_double (of_int t / of_int c)))))"
  using assms by (simp add: int_truediv_def Let_def)

lemma py_sum_token_counts:
  assumes "\<forall>r \<in> set requests. log_total_tokens r = JNull \<or> (\<exists>n. log_total_tokens r = JInt n)"
  shows "py_sum (PyInt a) (filter truthy (map log_total_tokens requests)) =
           Inr (PyInt (a + (\<Sum>r\<leftarrow>requests. case log_total_tokens r of JInt n \<Rightarrow> n | _ \<Rightarrow> 0)))"
  using assms
proof (induction requests arbitrary: a)
  case Nil
  then show ?case by simp
next
  case (Cons r rs)
  from Cons.prems
  have tail: "\<forall>r \<in> set rs. log_total_tokens r = JNull \<or> (\<exists>n. log_total_tokens r = JInt n)"
    by simp
  from Cons.prems consider "log_total_tokens r = JNull" | n where "log_total_tokens r = JInt n"
    by auto
  then show ?case
  proof cases
    case 1
    then show ?thesis using Cons.IH[OF tail, of a] by simp
  next
    case 2
    then show ?thesis using Cons.IH[OF tail, of a] Cons.IH[OF tail, of "a + n"]
      by (cases "n = 0") (simp_all add: add.assoc)
  qed
qed

lemma get_usage_statistics_value:
  assumes "\<forall>r \<in> set requests. log_total_tokens r = JNull \<or> (\<exists>n. log_total_tokens r = JInt n)"
  shows "get_usage_statistics now requests =
     (let n = int (length requests);
          c = int (length (filter (\<lambda>r. status r = ''completed'') requests));
          t = (\<Sum>r\<leftarrow>requests. case log_total_tokens r of JInt n \<Rightarrow> n | _ \<Rightarrow> 0)
      in if c \<noteq> 0 \<and> 2 ^ 1024 \<le> \<bar>nearest_double (of_int t / of_int c)\<bar> then Inl OverflowError
         else Inr \<lparr>total_requests = n,
                   completed_requests = c,
                   stat_total_tokens = PyInt t,
                   success_rate =
                     (if n = 0 then PyInt 0
                      else PyFloat (Finite (nearest_double
                             (nearest_double (of_int c / of_int n) * 100)))),
                   model_usage = model_usage_loop requests [],
                   recent_requests =
                     int (length (filter (\<lambda>r. now - seven_days \<le> log_timestamp r) requests)),
                   avg_tokens_per_request =
                     (if c = 0 then PyInt 0
                      else PyFloat (Finite (nearest_double (of_int t / of_int c))))\<rparr>)"
proof -
  let ?n = "int (length requests)"
  let ?c = "int (length (filter (\<lambda>r. status r = ''completed'') requests))"
  have le: "?c \<le> ?n" by simp
  have rate: "0 < ?n \<Longrightarrow>
      and_then (number_truediv (PyInt ?c) (PyInt ?n)) (\<lambda>q. number_mul q (PyInt 100)) =
        Inr (PyFloat (Finite (nearest_double (nearest_double (of_int ?c / of_int ?n) * 100))))"
    by (rule rate_value[OF _ le]) simp_all
  show ?thesis
  proof (cases "requests = []")
    case True
    then show ?thesis by (simp add: get_usage_statistics_def)
  next
    case False
    then have pos: "0 < ?n" by simp
    show ?thesis
      unfolding get_usage_statistics_def Let_def py_sum_token_counts[OF assms, of 0]
      using pos rate[OF pos]
      by (simp add: average_value del: number_truediv.simps number_mul.simps of_nat_less_0_iff)
  qed
qed

lemma example_log_counts:
  "\<forall>r \<in> set example_log. log_total_tokens r = JNull \<or> (\<exists>n. log_total_tokens r = JInt n)"
  by (simp add: example_log_def example_entry_def)

lemma nearest_double_examples:
  "nearest_double (3 / 4) = 3 / 4" "nearest_double 75 = 75" "nearest_double 20 = 20"
  by (rule nearest_double_exact[where k = "-53"], simp_all add: power_int_minus)
     (rule nearest_double_exact[where k = "-46"], simp_all add: power_int_minus,
      rule nearest_double_exact[where k = "-48"], simp_all add: power_int_minus)

lemma example_statistics:
  "get_usage_statistics example_now example_log =
     Inr \<lparr>total_requests = 4, completed_requests = 3, stat_total_tokens = PyInt 60,
          success_rate = PyFloat (Finite 75),
          model_usage = [(''sonar-pro'', 2), (''sonar'', 2)],
          recent_requests = 2, avg_tokens_per_request = PyFloat (Finite 20)\<rparr>"
  unfolding get_usage_statistics_value[OF example_log_counts]
  by (simp add: example_log_def example_entry_def example_now_def day_def seven_days_def
      nearest_double_examples)

text \<open>
  C1, as stated, fails on a log with one completed entry of \<open>10 ^ 400\<close> tokens: the
  average \<^verbatim>\<open>total_tokens / completed_requests\<close> is a true division of two ints whose
  result is out of the range of a float, so \<^verbatim>\<open>get_usage_statistics\<close> raises
  OverflowError and returns no statistics.
\<close>

theorem get_usage_statistics_overflow:
  "get_usage_statistics example_now
     [example_entry ''a'' 0 ''sonar'' ''completed'' (JInt (10 ^ 400))] = Inl OverflowError"
proof -
  have "(2::real) ^ 1024 \<le> \<bar>10 ^ 400\<bar>" by simp
  then have "(2::real) ^ 1024 \<le> \<bar>nearest_double (10 ^ 400)\<bar>"
    by (rule nearest_double_overflow)
  moreover have "\<forall>r \<in> set [example_entry ''a'' 0 ''sonar'' ''completed'' (JInt (10 ^ 400))].
      log_total_tokens r = JNull \<or> (\<exists>n. log_total_tokens r = JInt n)"
    by (simp add: example_entry_def)
  ultimately show ?thesis
    unfolding get_usage_statistics_value[OF \<open>\<forall>r \<in> set _. _\<close>]
    by (simp add: example_entry_def)
qed

text \<open>
  C1, amended. Take a request log whose token counts are integers or absent, with \<open>n\<close>
  entries, \<open>c\<close> of them with status \<open>completed\<close>, and \<open>t\<close> the sum of the token counts
  of the entries that have one, whatever their status. When nothing completed, or
  the float \<open>t / c\<close> is in range, \<^verbatim>\<open>get_usage_statistics\<close> returns statistics with
  \<open>total_requests = n\<close>, \<open>completed_requests = c\<close>, \<open>total_tokens = t\<close>,
  \<open>success_rate\<close> the float \<open>c / n * 100\<close> (the int 0 for an empty log),
  \<open>avg_tokens_per_request\<close> the float \<open>t / c\<close> (the int 0 when nothing completed)
  and \<open>recent_requests\<close> the number of entries whose timestamp is not older than seven
  days before the clock reading. Otherwise it raises OverflowError. The float is in
  range whenever \<open>t\<close> is below \<open>2 ^ 1023\<close> in magnitude. A float quotient or product
  is the double nearest to the exact one.
\<close>

theorem get_usage_statistics_correct:
  assumes "\<forall>r \<in> set requests. log_total_tokens r = JNull \<or> (\<exists>n. log_total_tokens r = JInt n)"
  shows
  "(let n = int (length requests);
        c = int (card {i. i < length requests \<and> status (requests ! i) = ''completed''});
        t = (\<Sum>r\<leftarrow>requests. case log_total_tokens r of JInt n \<Rightarrow> n | _ \<Rightarrow> 0)
    in (c = 0 \<or> \<bar>nearest_double (of_int t / of_int c)\<bar> < 2 ^ 1024 \<longrightarrow>
          (\<exists>s. get_usage_statistics now requests = Inr s \<and>
             total_requests s = n \<and>
             completed_requests s = c \<and>
             stat_total_tokens s = PyInt t \<and>
             success_rate s =
               (if n = 0 then PyInt 0
                else PyFloat (Finite (nearest_double
                       (nearest_double (of_int c / of_int n) * 100)))) \<and>
             avg_tokens_per_request s =
               (if c = 0 then PyInt 0
                else PyFloat (Finite (nearest_double (of_int t / of_int c)))) \<and>
             recent_requests s =
               int (card {i. i < length requests \<and>
                             now - seven_days \<le> log_timestamp (requests ! i)}))) \<and>
       (c \<noteq> 0 \<and> 2 ^ 1024 \<le> \<bar>nearest_double (of_int t / of_int c)\<bar> \<longrightarrow>
          get_usage_statistics now requests = Inl OverflowError) \<and>
       (\<bar>real_of_int t\<bar> < 2 ^ 1023 \<longrightarrow>
          c = 0 \<or> \<bar>nearest_double (of_int t / of_int c)\<bar> < 2 ^ 1024))"
proof -
  define n where "n = int (length requests)"
  define c where "c = int (card {i. i < length requests \<and> status (requests ! i) = ''completed''})"
  define t where "t = (\<Sum>r\<leftarrow>requests. case log_total_tokens r of JInt n \<Rightarrow> n | _ \<Rightarrow> 0)"
  define avg where "avg = nearest_double (of_int t / of_int c)"
  define limit where "limit = (2::real) ^ 1024"
  define s where "s =
     \<lparr>total_requests = n, completed_requests = c, stat_total_tokens = PyInt t,
      success_rate =
        (if n = 0 then PyInt 0
         else PyFloat (Finite (nearest_double (nearest_double (of_int c / of_int n) * 100)))),
      model_usage = model_usage_loop requests [],
      recent_requests =
        int (card {i. i < length requests \<and> now - seven_days \<le> log_timestamp (requests ! i)}),
      avg_tokens_per_request = (if c = 0 then PyInt 0 else PyFloat (Finite avg))\<rparr>"
  have val: "get_usage_statistics now requests =
               (if c \<noteq> 0 \<and> limit \<le> \<bar>avg\<bar> then Inl OverflowError else Inr s)"
    unfolding get_usage_statistics_value[OF assms] Let_def n_def c_def t_def avg_def limit_def
      s_def length_filter_conv_card ..
  have returns: "\<exists>s. get_usage_statistics now requests = Inr s \<and>
       total_requests s = n \<and> completed_requests s = c \<and> stat_total_tokens s = PyInt t \<and>
       success_rate s =
         (if n = 0 then PyInt 0
          else PyFloat (Finite (nearest_double (nearest_double (of_int c / of_int n) * 100)))) \<and>
       avg_tokens_per_request s = (if c = 0 then PyInt 0 else PyFloat (Finite avg)) \<and>
       recent_requests s =
         int (card {i. i < length requests \<and> now - seven_days \<le> log_timestamp (requests ! i)})"
    if "c = 0 \<or> \<bar>avg\<bar> < limit"
  proof -
    from that have "get_usage_statistics now requests = Inr s"
      unfolding val by auto
    then show ?thesis by (intro exI[of _ s]) (simp add: s_def)
  qed
  have raises: "get_usage_statistics now requests = Inl OverflowError"
    if "c \<noteq> 0 \<and> limit \<le> \<bar>avg\<bar>"
    using that unfolding val by simp
  have in_range: "c = 0 \<or> \<bar>avg\<bar> < limit" if small: "\<bar>real_of_int t\<bar> < 2 ^ 1023"
  proof (cases "c = 0")
    case True
    then show ?thesis by simp
  next
    case False
    have "0 \<le> c" unfolding c_def by (rule of_nat_0_le_iff)
    with False have "1 \<le> c" by linarith
    then have "1 \<le> real_of_int c" by (simp only: of_int_1_le_iff)
    then have "\<bar>real_of_int t / real_of_int c\<bar> \<le> \<bar>real_of_int t\<bar>"
      by (simp add: abs_divide divide_le_eq mult_le_cancel_left1)
    then have "\<bar>real_of_int t / real_of_int c\<bar> < 2 ^ 1023" using small by (rule le_less_trans)
    then have "\<bar>avg\<bar> < limit" unfolding avg_def limit_def by (rule nearest_double_finite)
    then show ?thesis ..
  qed
  show ?thesis
    unfolding Let_def
    using returns raises in_range
    unfolding n_def c_def t_def avg_def limit_def
    by blast
qed

text \<open>
  The example of the claim: three completed entries with 10, 20 and 30 tokens and one
  failed entry give 4 requests, 3 completed, 60 tokens, the success rate 75.0 and 20.0
  tokens per completed request; two of the four are from the last seven days.
\<close>

theorem get_usage_statistics_correct_witness:
  "get_usage_statistics example_now example_log =
     Inr \<lparr>total_requests = 4, completed_requests = 3, stat_total_tokens = PyInt 60,
          success_rate = PyFloat (Finite 75),
          model_usage = [(''sonar-pro'', 2), (''sonar'', 2)],
          recent_requests = 2, avg_tokens_per_request = PyFloat (Finite 20)\<rparr>"
  using get_usage_statistics_correct[OF example_log_counts, of example_now] example_statistics
  by simp

subsection \<open>Requests per model\<close>

lemma sum_list_update:
  "distinct (map fst al) \<Longrightarrow>
   sum_list (map snd (AList.update k v al)) =
     sum_list (map snd al) - (case map_of al k of None \<Rightarrow> 0 | Some n \<Rightarrow> n) + (v::int)"
  by (induction al) (auto simp: map_of_eq_None_iff image_iff split: option.splits)

text \<open>
  What the loop keeps true of the dict it builds: no model twice, one more count in
  total for each entry seen, and each model's count raised by the number of entries
  seen with that model.
\<close>

lemma model_usage_loop_counts:
  "distinct (map fst mu) \<Longrightarrow>
   distinct (map fst (model_usage_loop rs mu)) \<and>
   sum_list (map snd (model_usage_loop rs mu)) = sum_list (map snd mu) + int (length rs) \<and>
   (\<forall>m. map_of (model_usage_loop rs mu) m =
      (if m \<in> log_model ` set rs
       then Some ((case map_of mu m of None \<Rightarrow> 0 | Some n \<Rightarrow> n)
                   + int (count_list (map log_model rs) m))
       else map_of mu m))"
proof (induction rs arbitrary: mu)
  case Nil
  then show ?case by simp
next
  case (Cons r rs)
  let ?mu = "AList.update (log_model r)
               ((case map_of mu (log_model r) of None \<Rightarrow> 0 | Some n \<Rightarrow> n) + 1) mu"
  have dist: "distinct (map fst ?mu)"
    using Cons.prems by (simp add: distinct_update)
  have total: "sum_list (map snd ?mu) = sum_list (map snd mu) + 1"
    using Cons.prems by (simp add: sum_list_update)
  have lookup: "map_of ?mu m =
      (if m = log_model r then Some ((case map_of mu m of None \<Rightarrow> 0 | Some n \<Rightarrow> n) + 1)
       else map_of mu m)" for m
    by (simp add: update_conv')
  from Cons.IH[OF dist] show ?case
    by (auto simp: total lookup)
qed

lemma count_list_card:
  "count_list (map f xs) m = card {i. i < length xs \<and> f (xs ! i) = m}"
proof -
  have "count_list (map f xs) m = length (filter (\<lambda>x. f x = m) xs)"
    by (induction xs) auto
  then show ?thesis
    by (simp add: length_filter_conv_card)
qed

text \<open>
  C10. In the statistics that \<^verbatim>\<open>get_usage_statistics\<close> returns, the values of
  \<open>model_usage\<close> sum to \<open>total_requests\<close>, no model is a key twice, and the count under
  a model is the number of entries with that model, of every status; a model with no
  entry is not a key.
\<close>

theorem model_usage_total:
  assumes "get_usage_statistics now requests = Inr s"
  shows "sum_list (map snd (model_usage s)) = total_requests s \<and>
         distinct (map fst (model_usage s)) \<and>
         (\<forall>m. map_of (model_usage s) m =
            (if m \<in> log_model ` set requests
             then Some (int (card {i. i < length requests \<and> log_model (requests ! i) = m}))
             else None))"
proof -
  from assms have usage_eq: "model_usage s = model_usage_loop requests []"
    and total_eq: "total_requests s = int (length requests)"
    by (auto simp: get_usage_statistics_def Let_def and_then_Inr)
  show ?thesis
    using model_usage_loop_counts[of "[]" requests]
    by (simp add: usage_eq total_eq count_list_card)
qed

text \<open>
  In the example log two entries have the model \<open>sonar-pro\<close> and two, one of them
  failed, the model \<open>sonar\<close>: the counts are 2 and 2 and sum to the 4 requests.
\<close>

theorem model_usage_total_witness:
  "map_option model_usage
     (case get_usage_statistics example_now example_log of
        Inl e \<Rightarrow> None | Inr s \<Rightarrow> Some s) = Some [(''sonar-pro'', 2), (''sonar'', 2)] \<and>
   sum_list (map snd [(''sonar-pro'', 2::int), (''sonar'', 2)]) = 4"
  using model_usage_total[OF example_statistics]
  by (simp add: example_statistics)

subsection \<open>Status of an entry under outcome calls\<close>

lemma update_response_length:
  "length (update_response rid resp rj d rs) = length rs"
  by (induction rs) (auto simp: Let_def split: option.splits)

lemma update_error_length: "length (update_error rid msg d rs) = length rs"
  by (induction rs) auto

lemma update_response_ids:
  "map log_id (update_response rid resp rj d rs) = map log_id rs"
  by (induction rs) (auto simp: Let_def split: option.splits)

lemma update_error_ids: "map log_id (update_error rid msg d rs) = map log_id rs"
  by (induction rs) auto

lemma update_response_status:
  "i < length rs \<Longrightarrow>
   status (update_response rid resp rj d rs ! i) = status (rs ! i) \<or>
   status (update_response rid resp rj d rs ! i) = ''completed''"
  by (induction rs arbitrary: i) (auto simp: Let_def nth_Cons' split: option.splits)

lemma update_error_status:
  "i < length rs \<Longrightarrow>
   status (update_error rid msg d rs ! i) = status (rs ! i) \<or>
   status (update_error rid msg d rs ! i) = ''error''"
  by (induction rs arbitrary: i) (auto simp: nth_Cons')

lemma update_response_other:
  "i < length rs \<Longrightarrow> log_id (rs ! i) \<noteq> rid \<Longrightarrow>
   update_response rid resp rj d rs ! i = rs ! i"
  by (induction rs arbitrary: i) (auto simp: Let_def nth_Cons' split: option.splits)

lemma update_error_other:
  "i < length rs \<Longrightarrow> log_id (rs ! i) \<noteq> rid \<Longrightarrow> update_error rid msg d rs ! i = rs ! i"
  by (induction rs arbitrary: i) (auto simp: nth_Cons')

lemma update_response_sets_completed:
  "rid \<in> log_id ` set rs \<Longrightarrow>
   map_option status (get_request_by_id rid (update_response rid resp rj d rs)) =
     Some ''completed''"
  by (induction rs) (auto simp: Let_def split: option.splits)

lemma update_error_sets_error:
  "rid \<in> log_id ` set rs \<Longrightarrow>
   map_option status (get_request_by_id rid (update_error rid msg d rs)) = Some ''error''"
  by (induction rs) auto

lemma apply_call_length: "length (apply_call rid c rs) = length rs"
  by (cases c) (simp_all add: update_response_length update_error_length)

lemma apply_call_ids: "map log_id (apply_call rid c rs) = map log_id rs"
  by (cases c) (simp_all add: update_response_ids update_error_ids)

lemma apply_calls_length: "length (apply_calls rid cs rs) = length rs"
  by (induction cs arbitrary: rs) (simp_all add: apply_call_length)

lemma apply_calls_ids: "map log_id (apply_calls rid cs rs) = map log_id rs"
  by (induction cs arbitrary: rs) (simp_all add: apply_call_ids)

lemma apply_call_status:
  "i < length rs \<Longrightarrow>
   status (apply_call rid c rs ! i) \<in> {status (rs ! i), ''completed'', ''error''}"
  using update_response_status update_error_status by (cases c) fastforce+

lemma apply_calls_status:
  "i < length rs \<Longrightarrow>
   status (apply_calls rid cs rs ! i) \<in> {status (rs ! i), ''completed'', ''error''}"
proof (induction cs arbitrary: rs)
  case Nil
  then show ?case by simp
next
  case (Cons c cs)
  have "i < length (apply_call rid c rs)"
    using Cons.prems by (simp add: apply_call_length)
  from Cons.IH[OF this] apply_call_status[OF Cons.prems, of rid c] show ?case
    by auto
qed

lemma apply_call_other:
  "i < length rs \<Longrightarrow> log_id (rs ! i) \<noteq> rid \<Longrightarrow> apply_call rid c rs ! i = rs ! i"
  by (cases c) (simp_all add: update_response_other update_error_other)

lemma apply_calls_other:
  "i < length rs \<Longrightarrow> log_id (rs ! i) \<noteq> rid \<Longrightarrow> apply_calls rid cs rs ! i = rs ! i"
proof (induction cs arbitrary: rs)
  case Nil
  then show ?case by simp
next
  case (Cons c cs)
  have bound: "i < length (apply_call rid c rs)"
    using Cons.prems by (simp add: apply_call_length)
  have same: "apply_call rid c rs ! i = rs ! i"
    using Cons.prems by (simp add: apply_call_other)
  from Cons.IH[OF bound] same Cons.prems show ?case by simp
qed

lemma apply_calls_last:
  "cs \<noteq> [] \<Longrightarrow> rid \<in> log_id ` set rs \<Longrightarrow>
   map_option status (get_request_by_id rid (apply_calls rid cs rs)) =
     Some (case last cs of
             UpdateResponse resp rj d \<Rightarrow> ''completed''
           | UpdateError msg d \<Rightarrow> ''error'')"
proof (induction cs arbitrary: rs)
  case Nil
  then show ?case by simp
next
  case (Cons c cs)
  have mem: "rid \<in> log_id ` set (apply_call rid c rs)"
    using Cons.prems(2) apply_call_ids[of rid c rs] by (metis list.set_map)
  show ?case
  proof (cases "cs = []")
    case True
    then show ?thesis
      using Cons.prems(2)
      by (cases c) (simp_all add: update_response_sets_completed update_error_sets_error)
  next
    case False
    then show ?thesis using Cons.IH[OF False mem] by simp
  qed
qed

text \<open>
  C2, as stated, fails: neither \<^verbatim>\<open>update_response\<close> nor \<^verbatim>\<open>update_error\<close> reads the
  status before writing it. A request is logged under the id \<open>a\<close> and
  \<^verbatim>\<open>update_response\<close> completes it; a later \<^verbatim>\<open>update_error\<close> on the same id turns
  the completed entry into an error.
\<close>

theorem status_completed_then_error:
  "map_option status
     (get_request_by_id ''a''
        (update_response ''a'' example_response ''{}'' 5
           (snd (log_request 0 ''a'' example_request ''{}'' [])))) = Some ''completed'' \<and>
   map_option status
     (get_request_by_id ''a''
        (update_error ''a'' ''late failure'' 7
           (update_response ''a'' example_response ''{}'' 5
              (snd (log_request 0 ''a'' example_request ''{}'' []))))) = Some ''error''"
  by (simp add: log_request_def example_request_def example_response_def)

text \<open>
  C2, amended. Any sequence of \<^verbatim>\<open>update_response\<close> and \<^verbatim>\<open>update_error\<close> calls on one
  id keeps the entries and their ids, leaves every entry with another id as it was,
  and leaves the status of each entry either as it was or set to \<open>completed\<close> or
  \<open>error\<close>: no call sets a status to \<open>sent\<close> or \<open>pending\<close>. The calls do not look at
  the status they overwrite: when the id is in the log, the entry found under it after
  a non-empty sequence has the status of the last call, \<open>completed\<close> after
  \<^verbatim>\<open>update_response\<close> and \<open>error\<close> after \<^verbatim>\<open>update_error\<close>, whatever came before.
\<close>

theorem outcome_calls_status:
  "length (apply_calls rid cs rs) = length rs \<and>
   map log_id (apply_calls rid cs rs) = map log_id rs \<and>
   (\<forall>i < length rs.
      status (apply_calls rid cs rs ! i) \<in> {status (rs ! i), ''completed'', ''error''}) \<and>
   (\<forall>i < length rs. log_id (rs ! i) \<noteq> rid \<longrightarrow> apply_calls rid cs rs ! i = rs ! i) \<and>
   (cs \<noteq> [] \<and> rid \<in> log_id ` set rs \<longrightarrow>
      map_option status (get_request_by_id rid (apply_calls rid cs rs)) =
        Some (case last cs of
                UpdateResponse resp rj d \<Rightarrow> ''completed''
              | UpdateError msg d \<Rightarrow> ''error''))"
  using apply_calls_length[of rid cs rs] apply_calls_ids[of rid cs rs]
    apply_calls_status[of _ rs rid cs] apply_calls_other[of _ rs rid cs]
    apply_calls_last[of cs rid rs]
  by blast

text \<open>
  On the example log, an error and then a response recorded for the id \<open>d\<close> of the
  failed entry leave it completed, and the entry \<open>a\<close> as it was.
\<close>

theorem outcome_calls_status_witness:
  "map_option status
     (get_request_by_id ''d''
        (apply_calls ''d'' [UpdateError ''boom'' 3, UpdateResponse example_response ''{}'' 5]
           example_log)) = Some ''completed'' \<and>
   apply_calls ''d'' [UpdateError ''boom'' 3, UpdateResponse example_response ''{}'' 5]
     example_log ! 0 = example_log ! 0"
proof -
  have calls: "[UpdateError ''boom'' 3, UpdateResponse example_response ''{}'' 5] \<noteq> []"
    by simp
  have present: "''d'' \<in> log_id ` set example_log"
    by (simp add: example_log_def example_entry_def)
  have first: "0 < length example_log" "log_id (example_log ! 0) \<noteq> ''d''"
    by (simp_all add: example_log_def example_entry_def)
  show ?thesis
    using calls present first
      outcome_calls_status[of "''d''"
        "[UpdateError ''boom'' 3, UpdateResponse example_response ''{}'' 5]" example_log]
    by simp
qed

end
